theory Spec2Isabelle
  imports Main "HOL-Library.Word" "HOL-Library.Sublist" "HOL-Library.Monad_Syntax"
begin

section \<open>JavaScript values used by the bridge\<close>

text \<open>
  A JavaScript string is a sequence of UTF-16 code units: \<open>str.length\<close> counts them and
  \<open>str.charCodeAt(i)\<close> reads one, a number from 0 to 65535. A Buffer is a sequence of
  bytes. String literals of the source are ASCII and are written with \<open>js\<close>.
\<close>

type_synonym code_unit = "16 word"
type_synonym jsstring = "code_unit list"
type_synonym byte = "8 word"

definition js :: "string \<Rightarrow> jsstring" where
  "js s = map of_char s"

text \<open>
  A JavaScript number is a double. The bridge does two things with a number it is sent or
  configured with: it tests whether it is falsy (\<open>0\<close>, \<open>-0\<close> or \<open>NaN\<close>), and it
  converts it to text (\<open>String(x)\<close>, a template, the first step of \<open>parseInt\<close>). A number
  is therefore given by these two readings: \<open>number_String\<close> is whatever text JavaScript
  prints for it, \<open>1e+21\<close> for the number \<open>1e21\<close>.
\<close>

record jsnumber =
  number_falsy :: bool
  number_String :: jsstring

text \<open>
  A parsed JSON value. An object is the list of its own properties in insertion order
  (keys distinct, as \<open>JSON.parse\<close> leaves them). \<open>undefined\<close> is \<open>None\<close> of
  \<open>json option\<close>.
\<close>

datatype json =
    JNull
  | JBool bool
  | JNum jsnumber
  | JStr jsstring
  | JArr "json list"
  | JObj "(jsstring \<times> json) list"

text \<open>Truthiness, as \<open>!x\<close> and \<open>x || y\<close> test it.\<close>

fun truthy :: "json option \<Rightarrow> bool" where
  "truthy None = False"
| "truthy (Some JNull) = False"
| "truthy (Some (JBool b)) = b"
| "truthy (Some (JNum n)) = (\<not> number_falsy n)"
| "truthy (Some (JStr s)) = (s \<noteq> [])"
| "truthy (Some (JArr xs)) = True"
| "truthy (Some (JObj kvs)) = True"

text \<open>\<open>x || {}\<close>: the value when truthy, the empty object otherwise.\<close>

definition or_empty_object :: "json option \<Rightarrow> json" where
  "or_empty_object v = (if truthy v then the v else JObj [])"

text \<open>
  \<open>v.k\<close> for the property names the bridge reads (\<open>hex\<close>, \<open>b64\<close>, \<open>path\<close>, \<open>baud\<close>,
  \<open>station\<close>, \<open>voucher\<close>, \<open>data\<close> and the record fields): none of them is a property of
  a number, boolean, string or array, so only an object can hold one.
\<close>

fun get_prop :: "json \<Rightarrow> jsstring \<Rightarrow> json option" where
  "get_prop (JObj kvs) k = map_of kvs k"
| "get_prop _ k = None"

text \<open>\<open>Object.keys(v).length\<close> for a value that is neither \<open>null\<close> nor \<open>undefined\<close>.\<close>

fun keys_length :: "json \<Rightarrow> nat" where
  "keys_length (JObj kvs) = length kvs"
| "keys_length (JArr xs) = length xs"
| "keys_length (JStr s) = length s"
| "keys_length _ = 0"

subsection \<open>Values to text\<close>

definition digit_char :: "nat \<Rightarrow> code_unit" where
  "digit_char d = (if d < 10 then of_nat (48 + d) else of_nat (87 + d))"

text \<open>\<open>n.toString(radix)\<close> for a non-negative integer: lowercase digits, no leading zero.\<close>

fun toString_radix :: "nat \<Rightarrow> nat \<Rightarrow> jsstring" where
  "toString_radix r n =
     (if r < 2 \<or> n < r then [digit_char n]
      else toString_radix r (n div r) @ [digit_char (n mod r)])"

declare toString_radix.simps [simp del]

fun join_comma :: "jsstring list \<Rightarrow> jsstring" where
  "join_comma [] = []"
| "join_comma [x] = x"
| "join_comma (x # y # ys) = x @ js '','' @ join_comma (y # ys)"

text \<open>
  \<open>String(v)\<close> and template interpolation of a JSON value; \<open>None\<close> is the
  \<open>TypeError\<close> JavaScript throws (\<open>Cannot convert object to primitive value\<close>). An
  object is converted by its \<open>toString\<close>: the inherited one gives \<open>[object Object]\<close>,
  and an own property of that name, which in parsed JSON is never a function, leaves
  no conversion. An array joins the texts of its elements, \<open>null\<close> counting as empty.
\<close>

fun String_json :: "json \<Rightarrow> jsstring option" where
  "String_json JNull = Some (js ''null'')"
| "String_json (JBool b) = Some (if b then js ''true'' else js ''false'')"
| "String_json (JNum n) = Some (number_String n)"
| "String_json (JStr s) = Some s"
| "String_json (JArr xs) =
     map_option join_comma
       (those (map (\<lambda>x. if x = JNull then Some [] else String_json x) xs))"
| "String_json (JObj kvs) =
     (if map_of kvs (js ''toString'') = None then Some (js ''[object Object]'') else None)"

fun String_js :: "json option \<Rightarrow> jsstring option" where
  "String_js None = Some (js ''undefined'')"
| "String_js (Some v) = String_json v"

subsection \<open>Hexadecimal text\<close>

text \<open>The character class \<open>[0-9a-fA-F]\<close>.\<close>

definition isHexDigit :: "code_unit \<Rightarrow> bool" where
  "isHexDigit c = ((48 \<le> c \<and> c \<le> 57) \<or> (97 \<le> c \<and> c \<le> 102) \<or> (65 \<le> c \<and> c \<le> 70))"

text \<open>
  \<open>isHex(s)\<close>:
  \<^verbatim>\<open>typeof s === 'string' && /^[0-9a-fA-F]+$/.test(s) && s.length % 2 === 0\<close>
\<close>

fun isHex :: "json option \<Rightarrow> bool" where
  "isHex (Some (JStr s)) = (s \<noteq> [] \<and> list_all isHexDigit s \<and> length s mod 2 = 0)"
| "isHex _ = False"

definition hex_value :: "code_unit \<Rightarrow> nat option" where
  "hex_value c =
     (if 48 \<le> c \<and> c \<le> 57 then Some (unat c - 48)
      else if 97 \<le> c \<and> c \<le> 102 then Some (unat c - 87)
      else if 65 \<le> c \<and> c \<le> 70 then Some (unat c - 55)
      else None)"

text \<open>
  \<open>Buffer.from(s, 'hex')\<close>: one byte per pair of hexadecimal digits; decoding stops at the
  first pair that is not two hexadecimal digits, and a last single character is dropped.
\<close>

fun Buffer_from_hex :: "jsstring \<Rightarrow> byte list" where
  "Buffer_from_hex (a # b # rest) =
     (case (hex_value a, hex_value b) of
        (Some x, Some y) \<Rightarrow> of_nat (16 * x + y) # Buffer_from_hex rest
      | _ \<Rightarrow> [])"
| "Buffer_from_hex _ = []"

text \<open>
  \<open>s.toUpperCase()\<close> on the letters \<open>a\<close> to \<open>z\<close>; every other ASCII character is left as
  it is. The bridge applies it only to text made of hexadecimal digits.
\<close>

definition upper_unit :: "code_unit \<Rightarrow> code_unit" where
  "upper_unit c = (if 97 \<le> c \<and> c \<le> 122 then c - 32 else c)"

definition toUpperCase :: "jsstring \<Rightarrow> jsstring" where
  "toUpperCase s = map upper_unit s"

text \<open>\<open>h.padStart(2, '0')\<close>.\<close>

definition padStart2 :: "jsstring \<Rightarrow> jsstring" where
  "padStart2 h = replicate (2 - length h) 48 @ h"

text \<open>
  \<open>asciiToHex(str)\<close> of the bridge:
  \<^verbatim>\<open>if (typeof str !== 'string') str = String(str ?? '');
  for (...) { out += str.charCodeAt(i).toString(16).padStart(2, '0') }
  return out.toUpperCase()\<close>
  The loop appends one piece per code unit; \<open>asciiToHex_str\<close> is the function on a
  string, and \<open>asciiToHex\<close> is \<open>None\<close> where \<open>String\<close> throws.
\<close>

definition unit_hex :: "code_unit \<Rightarrow> jsstring" where
  "unit_hex c = padStart2 (toString_radix 16 (unat c))"

fun asciiToHex_loop :: "jsstring \<Rightarrow> jsstring \<Rightarrow> jsstring" where
  "asciiToHex_loop out [] = out"
| "asciiToHex_loop out (c # cs) = asciiToHex_loop (out @ unit_hex c) cs"

definition asciiToHex_str :: "jsstring \<Rightarrow> jsstring" where
  "asciiToHex_str str = toUpperCase (asciiToHex_loop [] str)"

fun asciiToHex :: "json option \<Rightarrow> jsstring option" where
  "asciiToHex (Some (JStr s)) = Some (asciiToHex_str s)"
| "asciiToHex None = Some (asciiToHex_str [])"
| "asciiToHex (Some JNull) = Some (asciiToHex_str [])"
| "asciiToHex (Some v) = map_option asciiToHex_str (String_json v)"

text \<open>
  \<open>convertToHex\<close> of the mobile screen (\<open>index.tsx\<close>), which the bridge's helper was
  carried over from: no padding and no upper-casing.
  \<^verbatim>\<open>str.split('').map((char) => char.charCodeAt(0).toString(16)).join('')\<close>
\<close>

definition convertToHex :: "jsstring \<Rightarrow> jsstring" where
  "convertToHex str = concat (map (\<lambda>c. toString_radix 16 (unat c)) str)"

section \<open>Configuration and responses\<close>

text \<open>
  The constants the bridge reads from its environment at start: \<open>SERIAL_PATH\<close>,
  \<open>BAUD\<close> (the number \<open>parseInt\<close> made of the variable) and \<open>AUTO_OPEN\<close>.
\<close>

record config =
  SERIAL_PATH :: jsstring
  BAUD :: jsnumber
  AUTO_OPEN :: bool

text \<open>
  What \<open>parseInt(text, 10)\<close> returns: \<open>NaN\<close>, or an integer below \<open>2^53\<close> in size, which a
  double holds exactly, or a double of at least that size, which is the integer read
  rounded and is left open here.
\<close>

datatype parsed = NaN | Exactly int | Rounded

text \<open>
  The body of an HTTP response. \<open>ErrorBody m\<close> is \<open>{ error: m }\<close>; \<open>OpenBody\<close> is
  \<open>{ ok: true, opened, path, baud }\<close>; \<open>OkBody\<close> is \<open>{ ok: true }\<close>; \<open>BytesBody n\<close> is
  \<open>{ ok: true, bytes: n }\<close>; \<open>VoucherBody n d\<close> is
  \<open>{ ok: true, bytes: n, usedDefaults: d }\<close>; \<open>ErrorPage\<close> is the answer of the
  framework's own error handler.
\<close>

datatype body =
    ErrorBody string
  | OpenBody bool json parsed
  | OkBody
  | BytesBody nat
  | VoucherBody nat bool
  | ErrorPage string

record response =
  status :: nat
  payload :: body

definition json_ok :: "body \<Rightarrow> response" where
  "json_ok b = \<lparr>status = 200, payload = b\<rparr>"

definition json_error :: "nat \<Rightarrow> string \<Rightarrow> response" where
  "json_error code msg = \<lparr>status = code, payload = ErrorBody msg\<rparr>"

text \<open>
  The failure kinds of the specification, as the responses of the bridge that carry them.
  The bridge has no response for \<open>InvalidField\<close> and none for \<open>LinkOpenFailed\<close>.
  \<open>is_failure\<close> holds of every response with an error status.
\<close>

definition NotOpen :: response where
  "NotOpen = json_error 503 ''serial not open''"

definition InvalidEncoding :: response where
  "InvalidEncoding = json_error 400 ''invalid hex''"

definition MissingPayload_b64 :: response where
  "MissingPayload_b64 = json_error 400 ''missing b64''"

definition MissingPayload_binary :: response where
  "MissingPayload_binary = json_error 400 ''missing binary body''"

definition PayloadTooLarge :: response where
  "PayloadTooLarge = \<lparr>status = 413, payload = ErrorPage ''request entity too large''\<rparr>"

definition is_failure :: "response \<Rightarrow> bool" where
  "is_failure r = (400 \<le> status r)"

section \<open>The serial link\<close>

text \<open>
  A \<open>SerialPort\<close> object of the serial library: the path and baud rate it was
  constructed with and three facts of its own. \<open>connecting\<close>: \<open>open\<close> was called and its
  callback has not yet run. \<open>handle\<close>: the object holds the operating system's handle of
  the device. \<open>closing\<close>: \<open>close\<close> was called, or the device was lost, and the release of
  the handle has not yet finished. The property the bridge reads, \<open>isOpen\<close>, is true
  when the object holds the handle and is not closing.
\<close>

record serialport =
  sp_path :: json
  baudRate :: jsnumber
  connecting :: bool
  handle :: bool
  closing :: bool

definition isOpen :: "serialport \<Rightarrow> bool" where
  "isOpen obj = (handle obj \<and> \<not> closing obj)"

text \<open>
  The state of the bridge: every \<open>SerialPort\<close> object constructed so far (an object is
  named by its index), the variables \<open>port\<close> (\<open>None\<close> is \<open>null\<close>) and \<open>opening\<close>
  (the field \<open>opening_flag\<close>), and the buffers handed to \<open>port.write\<close>, in order.
\<close>

record bridge =
  objects :: "serialport list"
  port :: "nat option"
  opening_flag :: bool
  writes :: "byte list list"

definition initial :: bridge where
  "initial = \<lparr>objects = [], port = None, opening_flag = False, writes = []\<rparr>"

text \<open>\<open>port && port.isOpen\<close>.\<close>

definition port_isOpen :: "bridge \<Rightarrow> bool" where
  "port_isOpen s =
     (case port s of None \<Rightarrow> False
      | Some h \<Rightarrow> h < length (objects s) \<and> isOpen (objects s ! h))"

text \<open>The states of the Link in the specification, read off the two variables.\<close>

datatype link_state = Closed | Opening | Open

definition link :: "bridge \<Rightarrow> link_state" where
  "link s = (if opening_flag s then Opening else if port_isOpen s then Open else Closed)"

text \<open>The number of objects that hold an operating system handle.\<close>

definition open_handles :: "bridge \<Rightarrow> nat" where
  "open_handles s = length (filter handle (objects s))"

subsection \<open>tryOpen\<close>

text \<open>
  What the environment answers to one acquisition: the constructor throws, or the
  callback of \<open>port.open\<close> reports an error, or it reports success.
\<close>

datatype open_outcome = ConstructorThrew string | OpenFailed string | Opened

text \<open>
  A throw inside the \<open>try\<close> of \<open>tryOpen\<close> before an object is made: \<open>catch\<close> clears
  \<open>port\<close>, \<open>finally\<close> clears \<open>opening\<close>.
\<close>

definition tryOpen_threw :: "bridge \<Rightarrow> bridge" where
  "tryOpen_threw s = s\<lparr>port := None, opening_flag := False\<rparr>"

text \<open>
  \<open>tryOpen(path)\<close> up to its \<open>await\<close>:
  \<^verbatim>\<open>if (opening || (port && port.isOpen)) return;
  opening = true;
  try {
    console.log(`[bridge] Trying to open ${path} @ ${BAUD}`);
    port = new SerialPort({ path, baudRate: BAUD, autoOpen: false });
    ... port.open(...)\<close>
  The log line puts \<open>path\<close> into a template: where that conversion throws, the throw
  is caught as any other and no object is made. \<open>Returned\<close> is a run that ends without
  waiting; \<open>Awaiting h\<close> is the suspension on a callback of the object \<open>h\<close>.
\<close>

datatype 'a suspended = Returned 'a | Awaiting nat 'a

definition new_SerialPort :: "config \<Rightarrow> json \<Rightarrow> serialport" where
  "new_SerialPort cfg path =
     \<lparr>sp_path = path, baudRate = BAUD cfg, connecting = False, handle = False,
      closing = False\<rparr>"

definition tryOpen_begin :: "config \<Rightarrow> json \<Rightarrow> bridge \<Rightarrow> bridge suspended" where
  "tryOpen_begin cfg path s =
     (if opening_flag s \<or> port_isOpen s then Returned s
      else if String_json path = None then Returned (tryOpen_threw s)
      else
        let h = length (objects s);
            obj = new_SerialPort cfg path
        in Awaiting h
             (s\<lparr>opening_flag := True,
                objects := objects s @ [obj\<lparr>connecting := True\<rparr>],
                port := Some h\<rparr>))"

text \<open>
  The rest of \<open>tryOpen\<close>, run when the callback of object \<open>h\<close> fires. On success the
  object holds the handle; on an error \<open>catch\<close> logs it and clears \<open>port\<close>. \<open>finally\<close>
  clears \<open>opening\<close> on both ways.
\<close>

definition tryOpen_resume :: "nat \<Rightarrow> bool \<Rightarrow> bridge \<Rightarrow> bridge" where
  "tryOpen_resume h ok s =
     (if ok
      then s\<lparr>objects := (objects s)[h := (objects s ! h)\<lparr>connecting := False, handle := True\<rparr>],
             opening_flag := False\<rparr>
      else s\<lparr>objects := (objects s)[h := (objects s ! h)\<lparr>connecting := False\<rparr>],
             port := None,
             opening_flag := False\<rparr>)"

text \<open>
  One whole call of \<open>tryOpen\<close>, with nothing else running in between. The outcome of
  the acquisition counts only where the code comes to it.
\<close>

definition tryOpen :: "config \<Rightarrow> json \<Rightarrow> open_outcome \<Rightarrow> bridge \<Rightarrow> bridge" where
  "tryOpen cfg path out s =
     (if opening_flag s \<or> port_isOpen s then s
      else if String_json path = None then tryOpen_threw s
      else case out of
        ConstructorThrew cause \<Rightarrow> tryOpen_threw (s\<lparr>opening_flag := True\<rparr>)
      | OpenFailed cause \<Rightarrow>
          (case tryOpen_begin cfg path s of
             Returned s' \<Rightarrow> s' | Awaiting h s' \<Rightarrow> tryOpen_resume h False s')
      | Opened \<Rightarrow>
          (case tryOpen_begin cfg path s of
             Returned s' \<Rightarrow> s' | Awaiting h s' \<Rightarrow> tryOpen_resume h True s'))"

subsection \<open>parseInt\<close>

text \<open>The white space \<open>parseInt\<close> skips at the start of its text.\<close>

definition isStrWhiteSpace :: "code_unit \<Rightarrow> bool" where
  "isStrWhiteSpace c =
     ((9 \<le> c \<and> c \<le> 13) \<or> c = 32 \<or> c = 160 \<or> c = 5760 \<or> (8192 \<le> c \<and> c \<le> 8202)
      \<or> c = 8232 \<or> c = 8233 \<or> c = 8239 \<or> c = 8287 \<or> c = 12288 \<or> c = 65279)"

definition isDecDigit :: "code_unit \<Rightarrow> bool" where
  "isDecDigit c = (48 \<le> c \<and> c \<le> 57)"

definition dec_value :: "jsstring \<Rightarrow> int" where
  "dec_value ds = foldl (\<lambda>acc c. 10 * acc + (uint c - 48)) 0 ds"

text \<open>
  \<open>parseInt(text, 10)\<close>: optional sign, then the longest run of decimal digits;
  \<open>NaN\<close> when there is no digit. The integer read is the result when it is below
  \<open>2^53\<close>; from there on the result is a double that need not be the integer read.
\<close>

definition parseInt10 :: "jsstring \<Rightarrow> parsed" where
  "parseInt10 txt =
     (let t = dropWhile isStrWhiteSpace txt;
          neg = (t \<noteq> [] \<and> hd t = 45);
          u = (if t \<noteq> [] \<and> (hd t = 45 \<or> hd t = 43) then tl t else t);
          ds = takeWhile isDecDigit u
      in if ds = [] then NaN
         else if dec_value ds < 2 ^ 53
              then Exactly (if neg then - dec_value ds else dec_value ds)
              else Rounded)"

subsection \<open>/open and /close\<close>

text \<open>
  \<^verbatim>\<open>const { path, baud } = req.body || {};
  const p = path || SERIAL_PATH;
  const b = parseInt(baud || BAUD, 10);
  try {
    await tryOpen(p);
    res.json({ ok: true, opened: !!(port && port.isOpen), path: p, baud: b });
  } catch (err) { res.status(500).json({ error: String(err) }); }\<close>
  \<open>parseInt\<close> converts its argument to text first, outside the \<open>try\<close>: where that
  throws, the handler ends there, with no response sent and \<open>tryOpen\<close> not called
  (\<open>None\<close> for the response). \<open>tryOpen\<close> catches every error itself, so the \<open>catch\<close>
  of the handler is never entered.
\<close>

definition open_path :: "config \<Rightarrow> json option \<Rightarrow> json" where
  "open_path cfg reqbody =
     (let path = get_prop (or_empty_object reqbody) (js ''path'')
      in if truthy path then the path else JStr (SERIAL_PATH cfg))"

definition open_baud :: "config \<Rightarrow> json option \<Rightarrow> parsed option" where
  "open_baud cfg reqbody =
     (let baud = get_prop (or_empty_object reqbody) (js ''baud'')
      in map_option parseInt10
           (String_js (if truthy baud then baud else Some (JNum (BAUD cfg)))))"

definition open_handler ::
  "config \<Rightarrow> json option \<Rightarrow> open_outcome \<Rightarrow> bridge \<Rightarrow> response option \<times> bridge" where
  "open_handler cfg reqbody out s =
     (let p = open_path cfg reqbody
      in case open_baud cfg reqbody of
           None \<Rightarrow> (None, s)
         | Some b \<Rightarrow>
             let s' = tryOpen cfg p out s
             in (Some (json_ok (OpenBody (port_isOpen s') p b)), s'))"

text \<open>
  \<^verbatim>\<open>if (port && port.isOpen) {
    await new Promise((res2) => port.close(() => res2()));
    port = null;
  }
  res.json({ ok: true });\<close>
  \<open>close_begin\<close> is the handler up to its \<open>await\<close>: \<open>port.close\<close> starts the release of
  the handle, and the object is closing from then on. \<open>close_finished h\<close> is what runs
  when the release of object \<open>h\<close> is done: the object no longer holds the handle, its
  \<open>close\<close> listener (set in \<open>tryOpen\<close>) clears the variable \<open>port\<close>, whichever object the
  variable refers to by then, and so does the handler when it resumes.
\<close>

definition close_begin :: "bridge \<Rightarrow> bridge suspended" where
  "close_begin s =
     (if port_isOpen s
      then let h = the (port s)
           in Awaiting h (s\<lparr>objects := (objects s)[h := (objects s ! h)\<lparr>closing := True\<rparr>]\<rparr>)
      else Returned s)"

definition close_finished :: "nat \<Rightarrow> bridge \<Rightarrow> bridge" where
  "close_finished h s =
     s\<lparr>objects := (objects s)[h := (objects s ! h)\<lparr>handle := False, closing := False\<rparr>],
       port := None\<rparr>"

text \<open>One whole \<open>/close\<close>, with nothing else running in between.\<close>

definition close_handler :: "bridge \<Rightarrow> response \<times> bridge" where
  "close_handler s =
     (case close_begin s of
        Returned s' \<Rightarrow> (json_ok OkBody, s')
      | Awaiting h s' \<Rightarrow> (json_ok OkBody, close_finished h s'))"

text \<open>
  The device is lost while object \<open>h\<close> is open: the library closes the object itself,
  and \<open>close_finished h\<close> follows when the release is done.
\<close>

definition disconnected :: "nat \<Rightarrow> bridge \<Rightarrow> bridge" where
  "disconnected h s = s\<lparr>objects := (objects s)[h := (objects s ! h)\<lparr>closing := True\<rparr>]\<rparr>"

subsection \<open>The probe loop\<close>

text \<open>
  One tick of \<open>pollForPort\<close>; \<open>found\<close> says whether \<open>SerialPort.list()\<close> had the
  configured path.
  \<^verbatim>\<open>if (AUTO_OPEN) { ... if (found && (!port || !port.isOpen)) await tryOpen(SERIAL_PATH) }\<close>
\<close>

definition pollForPort :: "config \<Rightarrow> bool \<Rightarrow> bridge \<Rightarrow> bridge suspended" where
  "pollForPort cfg found s =
     (if AUTO_OPEN cfg \<and> found \<and> \<not> port_isOpen s
      then tryOpen_begin cfg (JStr (SERIAL_PATH cfg)) s
      else Returned s)"

section \<open>Writing\<close>

text \<open>
  What the device answers to one \<open>port.write(buf, cb)\<close> followed by \<open>port.drain(cb)\<close>:
  the write reports an error, or the drain does, or the buffer is flushed.
\<close>

datatype write_outcome = WriteError string | DrainError string | Flushed

text \<open>
  \<^verbatim>\<open>port.write(buf, (err) => {
    if (err) return res.status(500).json({ error: String(err) });
    port.drain((de) => {
      if (de) return res.status(500).json({ error: String(de) });
      return res.json(success);
    });
  });\<close>
\<close>

definition port_write :: "byte list \<Rightarrow> write_outcome \<Rightarrow> body \<Rightarrow> bridge \<Rightarrow> response \<times> bridge" where
  "port_write buf wo success s =
     (case wo of
        WriteError cause \<Rightarrow> json_error 500 cause
      | DrainError cause \<Rightarrow> json_error 500 cause
      | Flushed \<Rightarrow> json_ok success,
      s\<lparr>writes := writes s @ [buf]\<rparr>)"

text \<open>
  \<open>/write-hex\<close>, after the authorisation filter:
  \<^verbatim>\<open>const { hex } = req.body || {};
  if (!isHex(hex)) return res.status(400).json({ error: 'invalid hex' });
  if (!port || !port.isOpen) return res.status(503).json({ error: 'serial not open' });
  const buf = Buffer.from(hex, 'hex');\<close>
  Past \<open>isHex\<close> the value is a string, the one the buffer is decoded from.
\<close>

definition write_hex :: "json option \<Rightarrow> write_outcome \<Rightarrow> bridge \<Rightarrow> response \<times> bridge" where
  "write_hex reqbody wo s =
     (let hex = get_prop (or_empty_object reqbody) (js ''hex'')
      in if \<not> isHex hex then (InvalidEncoding, s)
         else if \<not> port_isOpen s then (NotOpen, s)
         else let buf = Buffer_from_hex (case hex of Some (JStr h) \<Rightarrow> h | _ \<Rightarrow> [])
              in port_write buf wo (BytesBody (length buf)) s)"

text \<open>
  \<open>/write-base64\<close>. \<open>Buffer.from(b64, 'base64')\<close> is the platform's decoder, a parameter
  here: \<open>None\<close> is its \<open>TypeError\<close> on a value it does not take, which rejects the
  handler's promise with no response sent.
  \<^verbatim>\<open>const { b64 } = req.body || {};
  if (!b64) return res.status(400).json({ error: 'missing b64' });
  if (!port || !port.isOpen) return res.status(503).json({ error: 'serial not open' });
  const buf = Buffer.from(b64, 'base64');\<close>
\<close>

definition write_base64 ::
  "(json \<Rightarrow> byte list option) \<Rightarrow> json option \<Rightarrow> write_outcome \<Rightarrow> bridge
     \<Rightarrow> response option \<times> bridge" where
  "write_base64 Buffer_from_base64 reqbody wo s =
     (let b64 = get_prop (or_empty_object reqbody) (js ''b64'')
      in if \<not> truthy b64 then (Some MissingPayload_b64, s)
         else if \<not> port_isOpen s then (Some NotOpen, s)
         else case Buffer_from_base64 (the b64) of
                None \<Rightarrow> (None, s)
              | Some buf \<Rightarrow>
                  (case port_write buf wo (BytesBody (length buf)) s of
                     (r, s') \<Rightarrow> (Some r, s')))"

text \<open>
  \<open>/write-binary\<close>. The route runs \<open>express.raw\<close> with
  \<^verbatim>\<open>{ type: 'application/octet-stream', limit: '2mb' }\<close> before the handler: a request with
  no body or another content type leaves \<open>req.body\<close> something that is not a Buffer, a
  body over the limit is answered 413 by the framework, and any other body arrives as a
  Buffer, also one of length 0.
  \<^verbatim>\<open>const buf = req.body;
  if (!buf || !Buffer.isBuffer(buf)) return res.status(400).json({ error: 'missing binary body' });
  if (!port || !port.isOpen) return res.status(503).json({ error: 'serial not open' });
  port.write(buf, ...)\<close>
\<close>

datatype raw_body = NotABuffer | Buffer "byte list"

definition raw_limit :: nat where
  "raw_limit = 2 * 1024 * 1024"

definition express_raw :: "byte list option \<Rightarrow> response + raw_body" where
  "express_raw octets =
     (case octets of
        None \<Rightarrow> Inr NotABuffer
      | Some bs \<Rightarrow> if raw_limit < length bs then Inl PayloadTooLarge else Inr (Buffer bs))"

definition write_binary_handler :: "raw_body \<Rightarrow> write_outcome \<Rightarrow> bridge \<Rightarrow> response \<times> bridge" where
  "write_binary_handler buf wo s =
     (case buf of
        NotABuffer \<Rightarrow> (MissingPayload_binary, s)
      | Buffer bs \<Rightarrow>
          if \<not> port_isOpen s then (NotOpen, s)
          else port_write bs wo (BytesBody (length bs)) s)"

definition write_binary :: "byte list option \<Rightarrow> write_outcome \<Rightarrow> bridge \<Rightarrow> response \<times> bridge" where
  "write_binary octets wo s =
     (case express_raw octets of
        Inl r \<Rightarrow> (r, s)
      | Inr buf \<Rightarrow> write_binary_handler buf wo s)"

section \<open>The voucher\<close>

text \<open>\<open>now.toDateString()\<close> and \<open>now.toISOString()\<close> of the request's \<open>new Date()\<close>.\<close>

record clock =
  toDateString :: jsstring
  toISOString :: jsstring

definition defaultStation :: json where
  "defaultStation = JObj
     [(js ''name'', JStr (js ''My Station'')),
      (js ''address'', JStr (js ''123 Main St'')),
      (js ''city'', JStr (js ''Yangon'')),
      (js ''state'', JStr (js ''MM'')),
      (js ''phone1'', JStr (js ''09-123456789'')),
      (js ''phone2'', JStr (js ''09-987654321''))]"

definition defaultVoucher :: "clock \<Rightarrow> json" where
  "defaultVoucher now = JObj
     [(js ''dailyReportDate'', JStr (toDateString now)),
      (js ''createAt'', JStr (toISOString now)),
      (js ''nozzleNo'', JStr (js ''01'')),
      (js ''vocono'', JStr (js ''VC123456'')),
      (js ''salePrice'', JStr (js ''2530'')),
      (js ''saleLiter'', JStr (js ''10.50'')),
      (js ''totalPrice'', JStr (js ''26565'')),
      (js ''fuelType'', JStr (js ''OCTANE 95''))]"

text \<open>
  A field of \<open>Object.assign({}, src1, src2, ...)\<close>: the last source that has the property
  gives its value.
\<close>

fun assigned :: "json list \<Rightarrow> jsstring \<Rightarrow> json option" where
  "assigned [] k = None"
| "assigned (src # rest) k =
     (case assigned rest k of Some v \<Rightarrow> Some v | None \<Rightarrow> get_prop src k)"

text \<open>\<open>s.slice(a, b)\<close> for \<open>0 \<le> a \<le> b\<close>: what there is of the positions \<open>a\<close> to \<open>b - 1\<close>.\<close>

definition slice :: "nat \<Rightarrow> nat \<Rightarrow> jsstring \<Rightarrow> jsstring" where
  "slice a b s = take (b - a) (drop a s)"

definition dashes :: jsstring where
  "dashes = js ''2D2D2D2D2D2D2D2D2D2D2D2D2D2D2D2D2D2D2D2D2D2D2D2D2D2D2D2D0A''"

text \<open>
  The merged records and the hexadecimal chunks of \<open>/print-voucher\<close>:
  \<^verbatim>\<open>const body = req.body || {};
  const station = Object.assign({}, defaultStation, body.station || {});
  const voucher = Object.assign({}, defaultVoucher, body.voucher || {}, body.data || {});\<close>
\<close>

definition station_of :: "json option \<Rightarrow> jsstring \<Rightarrow> json option" where
  "station_of reqbody =
     (let body = or_empty_object reqbody
      in assigned [defaultStation, or_empty_object (get_prop body (js ''station''))])"

definition voucher_of :: "clock \<Rightarrow> json option \<Rightarrow> jsstring \<Rightarrow> json option" where
  "voucher_of now reqbody =
     (let body = or_empty_object reqbody
      in assigned [defaultVoucher now,
                   or_empty_object (get_prop body (js ''voucher'')),
                   or_empty_object (get_prop body (js ''data''))])"

text \<open>
  \<open>asciiToHex(String(v))\<close>, and the time: \<open>asciiToHex(String(voucher.createAt).slice(11, 19))\<close>.
  Both are \<open>None\<close> where \<open>String\<close> throws.
\<close>

definition hex_of_String :: "json option \<Rightarrow> jsstring option" where
  "hex_of_String v = map_option asciiToHex_str (String_js v)"

definition timeHex_of :: "clock \<Rightarrow> json option \<Rightarrow> jsstring option" where
  "timeHex_of now reqbody =
     map_option (\<lambda>t. asciiToHex_str (slice 11 19 t))
       (String_js (voucher_of now reqbody (js ''createAt'')))"

text \<open>
  The twelve conversions in the order of the source, then the chunks. A conversion that
  throws ends the computation (\<open>None\<close>).
\<close>

definition hexChunks :: "clock \<Rightarrow> json option \<Rightarrow> jsstring list option" where
  "hexChunks now reqbody =
     (let station = station_of reqbody;
          voucher = voucher_of now reqbody
      in do {
        stationName \<leftarrow> asciiToHex (station (js ''name''));
        address \<leftarrow> String_js (station (js ''address''));
        city \<leftarrow> String_js (station (js ''city''));
        state \<leftarrow> String_js (station (js ''state''));
        let location = asciiToHex_str (address @ js '', '' @ city @ js '', '' @ state);
        phone1Hex \<leftarrow> asciiToHex (station (js ''phone1''));
        phone2Hex \<leftarrow> asciiToHex (station (js ''phone2''));
        dateHex \<leftarrow> hex_of_String (voucher (js ''dailyReportDate''));
        timeHex \<leftarrow> timeHex_of now reqbody;
        nozzleHex \<leftarrow> hex_of_String (voucher (js ''nozzleNo''));
        voconoHex \<leftarrow> hex_of_String (voucher (js ''vocono''));
        basePriceHex \<leftarrow> hex_of_String (voucher (js ''salePrice''));
        literHex \<leftarrow> hex_of_String (voucher (js ''saleLiter''));
        totalHex \<leftarrow> hex_of_String (voucher (js ''totalPrice''));
        fuelHex \<leftarrow> hex_of_String (voucher (js ''fuelType''));
        Some
         [js ''1B401B6101'' @ stationName @ js ''0A'',
          location @ js ''0A'',
          phone1Hex @ js ''2C20'' @ phone2Hex @ js ''0A'',
          js ''1B6100'',
          dashes,
          js ''564F434F4E4F202020'' @ voconoHex @ js ''0A'',
          js ''444154452020202020'' @ dateHex @ js ''0A'',
          js ''54494D452020202020'' @ timeHex @ js ''0A'',
          js ''4E4F5A5A4C45202020'' @ nozzleHex @ js ''0A'',
          dashes,
          js ''4655454C20202020'' @ fuelHex @ js ''0A'',
          js ''4241534520505249434520202020'' @ basePriceHex @ js ''204D4D4B202F204C495445520A'',
          js ''53414C45204C4954455253202020'' @ literHex @ js ''204C490A'',
          js ''544F54414C202020202020202020'' @ totalHex @ js ''204D4D4B0A'',
          js ''202020202020202020202020202028494E434C555349564520544158290A'',
          dashes,
          js ''1B6101'',
          js ''5448414E4B20594F5520464F52205649534954494E470A'',
          js ''1B6401'',
          js ''1D564100'']
      })"

definition fullHex :: "clock \<Rightarrow> json option \<Rightarrow> jsstring option" where
  "fullHex now reqbody = map_option concat (hexChunks now reqbody)"

definition voucher_buffer :: "clock \<Rightarrow> json option \<Rightarrow> byte list option" where
  "voucher_buffer now reqbody = map_option Buffer_from_hex (fullHex now reqbody)"

text \<open>\<open>!req.body || Object.keys(req.body).length === 0\<close>.\<close>

definition usedDefaults :: "json option \<Rightarrow> bool" where
  "usedDefaults reqbody = (\<not> truthy reqbody \<or> keys_length (the reqbody) = 0)"

text \<open>
  \<open>/print-voucher\<close>, after the authorisation filter. The whole handler is in a \<open>try\<close>:
  a conversion that throws is caught before anything is written, and answered
  \<^verbatim>\<open>res.status(500).json({ error: String(err) })\<close>.
\<close>

definition conversion_error :: response where
  "conversion_error = json_error 500 ''TypeError: Cannot convert object to primitive value''"

definition print_voucher ::
  "clock \<Rightarrow> json option \<Rightarrow> write_outcome \<Rightarrow> bridge \<Rightarrow> response \<times> bridge" where
  "print_voucher now reqbody wo s =
     (if \<not> port_isOpen s then (NotOpen, s)
      else case voucher_buffer now reqbody of
             None \<Rightarrow> (conversion_error, s)
           | Some buf \<Rightarrow>
               port_write buf wo (VoucherBody (length buf) (usedDefaults reqbody)) s)"

section \<open>Reachable states\<close>

text \<open>
  One step of the bridge is one uninterrupted run of its code: a request or a probe tick
  up to its \<open>await\<close>, the continuation of \<open>tryOpen\<close> when the callback of an object that
  is being opened fires, the \<open>close\<close> listener and the continuation of \<open>/close\<close> when
  the release of a closing object is done, and a write. The loss of the device under an
  open object is a step of the library.
\<close>

fun after :: "bridge suspended \<Rightarrow> bridge" where
  "after (Returned s) = s"
| "after (Awaiting h s) = s"

inductive step :: "config \<Rightarrow> bridge \<Rightarrow> bridge \<Rightarrow> bool" for cfg :: config where
  open_request: "step cfg s (after (tryOpen_begin cfg p s))"
| open_threw: "\<not> (opening_flag s \<or> port_isOpen s) \<Longrightarrow> step cfg s (tryOpen_threw s)"
| open_callback:
    "h < length (objects s) \<Longrightarrow> connecting (objects s ! h) \<Longrightarrow> step cfg s (tryOpen_resume h ok s)"
| probe: "step cfg s (after (pollForPort cfg found s))"
| close_request: "step cfg s (after (close_begin s))"
| close_callback:
    "h < length (objects s) \<Longrightarrow> closing (objects s ! h) \<Longrightarrow> step cfg s (close_finished h s)"
| device_lost:
    "h < length (objects s) \<Longrightarrow> isOpen (objects s ! h) \<Longrightarrow> step cfg s (disconnected h s)"
| hex_request: "step cfg s (snd (write_hex reqbody wo s))"
| base64_request: "step cfg s (snd (write_base64 dec reqbody wo s))"
| binary_request: "step cfg s (snd (write_binary octets wo s))"
| voucher_request: "step cfg s (snd (print_voucher now reqbody wo s))"

inductive reachable :: "config \<Rightarrow> bridge \<Rightarrow> bool" for cfg :: config where
  start: "reachable cfg initial"
| next_state: "reachable cfg s \<Longrightarrow> step cfg s s' \<Longrightarrow> reachable cfg s'"

section \<open>Concrete inputs\<close>

text \<open>
  The numbers 9600, 115200 and 1234, a configuration, a clock and the state after one
  successful \<open>/open\<close> from the start, used where a statement is evaluated at a concrete
  input.
\<close>

definition number_9600 :: jsnumber where
  "number_9600 = \<lparr>number_falsy = False, number_String = js ''9600''\<rparr>"

definition number_115200 :: jsnumber where
  "number_115200 = \<lparr>number_falsy = False, number_String = js ''115200''\<rparr>"

definition number_1234 :: jsnumber where
  "number_1234 = \<lparr>number_falsy = False, number_String = js ''1234''\<rparr>"

definition example_config :: config where
  "example_config =
     \<lparr>SERIAL_PATH = js ''/dev/ttyUSB0'', BAUD = number_9600, AUTO_OPEN = True\<rparr>"

definition example_clock :: clock where
  "example_clock =
     \<lparr>toDateString = js ''Fri Sep 26 2025'', toISOString = js ''2025-09-26T12:34:56.000Z''\<rparr>"

definition example_open :: bridge where
  "example_open = snd (open_handler example_config None Opened initial)"

section \<open>Uppercase hexadecimal digits, as the specification words them\<close>

text \<open>
  The digit of a value below 16, and the \<open>k\<close> lowest hexadecimal digits of a number, most
  significant first. \<open>digits_emitted\<close> is the number of digits the bridge's helper turns
  out to write for one code unit.
\<close>

definition upper_hex_digit :: "nat \<Rightarrow> code_unit" where
  "upper_hex_digit d = js ''0123456789ABCDEF'' ! d"

definition upper_hex :: "nat \<Rightarrow> nat \<Rightarrow> jsstring" where
  "upper_hex k n = map (\<lambda>j. upper_hex_digit (n div 16 ^ j mod 16)) (rev [0..<k])"

definition digits_emitted :: "code_unit \<Rightarrow> nat" where
  "digits_emitted c = (if c \<le> 255 then 2 else if c \<le> 4095 then 3 else 4)"

text \<open>The bytes of an ASCII text.\<close>

definition ascii_bytes :: "string \<Rightarrow> byte list" where
  "ascii_bytes s = map of_char s"

section \<open>A close overtaken by an open\<close>

text \<open>
  The states of one run of the bridge. \<open>/open\<close> succeeds on the configured path;
  \<open>/close\<close> starts the release of that object; before the release is done, \<open>/open\<close> for
  a second path passes the guard of \<open>tryOpen\<close>, the first object being no longer open,
  and makes a second object; the release finishes, and the listener and the resumed
  \<open>/close\<close> clear \<open>port\<close>, which refers to the second object by then; the second
  object opens; \<open>/open\<close> for a third path finds \<open>port\<close> cleared, makes a third object,
  and that opens too.
\<close>

definition race_closing :: bridge where
  "race_closing = after (close_begin example_open)"

definition race_second_open :: bridge where
  "race_second_open = after (tryOpen_begin example_config (JStr (js ''/dev/ttyUSB1'')) race_closing)"

definition race_release_done :: bridge where
  "race_release_done = close_finished 0 race_second_open"

definition race_orphan :: bridge where
  "race_orphan = tryOpen_resume 1 True race_release_done"

definition race_third_open :: bridge where
  "race_third_open = after (tryOpen_begin example_config (JStr (js ''/dev/ttyUSB2'')) race_orphan)"

definition race_two_handles :: bridge where
  "race_two_handles = tryOpen_resume 2 True race_third_open"

section \<open>Facts about the concrete inputs\<close>

lemma initial_closed: "\<not> port_isOpen initial"
  by (simp add: initial_def port_isOpen_def)

lemma parseInt10_9600: "parseInt10 (js ''9600'') = Exactly 9600"
  by (simp add: parseInt10_def js_def isStrWhiteSpace_def isDecDigit_def dec_value_def Let_def)

lemma parseInt10_115200: "parseInt10 (js ''115200'') = Exactly 115200"
  by (simp add: parseInt10_def js_def isStrWhiteSpace_def isDecDigit_def dec_value_def Let_def)

lemma open_baud_default: "open_baud example_config None = Some (Exactly 9600)"
  by (simp add: open_baud_def or_empty_object_def example_config_def number_9600_def
      parseInt10_9600)

lemma example_open_eq:
  "example_open =
     \<lparr>objects = [\<lparr>sp_path = JStr (js ''/dev/ttyUSB0''), baudRate = number_9600,
                  connecting = False, handle = True, closing = False\<rparr>],
      port = Some 0, opening_flag = False, writes = []\<rparr>"
  by (simp add: example_open_def open_handler_def open_baud_default)
    (simp add: tryOpen_def tryOpen_begin_def tryOpen_resume_def initial_def port_isOpen_def
      new_SerialPort_def example_config_def open_path_def or_empty_object_def Let_def)

lemma example_open_isOpen: "port_isOpen example_open"
  by (simp add: example_open_eq port_isOpen_def isOpen_def)

lemma example_open_reachable: "reachable example_config example_open"
proof -
  let ?p = "JStr (js ''/dev/ttyUSB0'')"
  let ?s1 = "after (tryOpen_begin example_config ?p initial)"
  have r1: "reachable example_config ?s1"
    by (rule reachable.next_state [OF reachable.start step.open_request])
  have c: "0 < length (objects ?s1)" "connecting (objects ?s1 ! 0)"
    by (simp_all add: tryOpen_begin_def initial_def port_isOpen_def Let_def new_SerialPort_def)
  have "reachable example_config (tryOpen_resume 0 True ?s1)"
    by (rule reachable.next_state [OF r1 step.open_callback [OF c]])
  moreover have "tryOpen_resume 0 True ?s1 = example_open"
    by (simp add: example_open_eq tryOpen_resume_def tryOpen_begin_def initial_def
        port_isOpen_def Let_def new_SerialPort_def example_config_def)
  ultimately show ?thesis by simp
qed

section \<open>The guard of tryOpen and the handles\<close>

text \<open>
  When the link is Opening or Open, \<open>tryOpen\<close> returns at its guard: no object is
  made and the state is the same.
\<close>

lemma guard_returns:
  assumes "link s \<noteq> Closed"
  shows "tryOpen_begin cfg p s = Returned s" "tryOpen cfg p out s = s"
proof -
  from assms have g: "opening_flag s \<or> port_isOpen s"
    by (auto simp: link_def split: if_splits)
  then show "tryOpen_begin cfg p s = Returned s" by (simp add: tryOpen_begin_def)
  from g show "tryOpen cfg p out s = s" by (simp add: tryOpen_def)
qed

lemma race_closing_eq:
  "race_closing =
     \<lparr>objects = [\<lparr>sp_path = JStr (js ''/dev/ttyUSB0''), baudRate = number_9600,
                  connecting = False, handle = True, closing = True\<rparr>],
      port = Some 0, opening_flag = False, writes = []\<rparr>"
  by (simp add: race_closing_def close_begin_def example_open_isOpen) (simp add: example_open_eq)

lemma race_second_open_eq:
  "race_second_open =
     \<lparr>objects = [\<lparr>sp_path = JStr (js ''/dev/ttyUSB0''), baudRate = number_9600,
                  connecting = False, handle = True, closing = True\<rparr>,
                 \<lparr>sp_path = JStr (js ''/dev/ttyUSB1''), baudRate = number_9600,
                  connecting = True, handle = False, closing = False\<rparr>],
      port = Some 1, opening_flag = True, writes = []\<rparr>"
  by (simp add: race_second_open_def race_closing_eq tryOpen_begin_def port_isOpen_def isOpen_def
      new_SerialPort_def example_config_def Let_def)

lemma race_release_done_eq:
  "race_release_done =
     \<lparr>objects = [\<lparr>sp_path = JStr (js ''/dev/ttyUSB0''), baudRate = number_9600,
                  connecting = False, handle = False, closing = False\<rparr>,
                 \<lparr>sp_path = JStr (js ''/dev/ttyUSB1''), baudRate = number_9600,
                  connecting = True, handle = False, closing = False\<rparr>],
      port = None, opening_flag = True, writes = []\<rparr>"
  by (simp add: race_release_done_def race_second_open_eq close_finished_def)

lemma race_orphan_eq:
  "race_orphan =
     \<lparr>objects = [\<lparr>sp_path = JStr (js ''/dev/ttyUSB0''), baudRate = number_9600,
                  connecting = False, handle = False, closing = False\<rparr>,
                 \<lparr>sp_path = JStr (js ''/dev/ttyUSB1''), baudRate = number_9600,
                  connecting = False, handle = True, closing = False\<rparr>],
      port = None, opening_flag = False, writes = []\<rparr>"
  by (simp add: race_orphan_def race_release_done_eq tryOpen_resume_def)

lemma race_third_open_eq:
  "race_third_open =
     \<lparr>objects = [\<lparr>sp_path = JStr (js ''/dev/ttyUSB0''), baudRate = number_9600,
                  connecting = False, handle = False, closing = False\<rparr>,
                 \<lparr>sp_path = JStr (js ''/dev/ttyUSB1''), baudRate = number_9600,
                  connecting = False, handle = True, closing = False\<rparr>,
                 \<lparr>sp_path = JStr (js ''/dev/ttyUSB2''), baudRate = number_9600,
                  connecting = True, handle = False, closing = False\<rparr>],
      port = Some 2, opening_flag = True, writes = []\<rparr>"
  by (simp add: race_third_open_def race_orphan_eq tryOpen_begin_def port_isOpen_def
      new_SerialPort_def example_config_def Let_def)

lemma race_two_handles_eq:
  "race_two_handles =
     \<lparr>objects = [\<lparr>sp_path = JStr (js ''/dev/ttyUSB0''), baudRate = number_9600,
                  connecting = False, handle = False, closing = False\<rparr>,
                 \<lparr>sp_path = JStr (js ''/dev/ttyUSB1''), baudRate = number_9600,
                  connecting = False, handle = True, closing = False\<rparr>,
                 \<lparr>sp_path = JStr (js ''/dev/ttyUSB2''), baudRate = number_9600,
                  connecting = False, handle = True, closing = False\<rparr>],
      port = Some 2, opening_flag = False, writes = []\<rparr>"
  by (simp add: race_two_handles_def race_third_open_eq tryOpen_resume_def)

lemma race_reachable: "reachable example_config race_two_handles"
proof -
  have 1: "reachable example_config race_closing"
    unfolding race_closing_def
    by (rule reachable.next_state [OF example_open_reachable step.close_request])
  have 2: "reachable example_config race_second_open"
    unfolding race_second_open_def
    by (rule reachable.next_state [OF 1 step.open_request])
  have c2: "0 < length (objects race_second_open)" "closing (objects race_second_open ! 0)"
    by (simp_all add: race_second_open_eq)
  have 3: "reachable example_config race_release_done"
    unfolding race_release_done_def
    by (rule reachable.next_state [OF 2 step.close_callback [OF c2]])
  have c3: "1 < length (objects race_release_done)" "connecting (objects race_release_done ! 1)"
    by (simp_all add: race_release_done_eq)
  have 4: "reachable example_config race_orphan"
    unfolding race_orphan_def
    by (rule reachable.next_state [OF 3 step.open_callback [OF c3]])
  have 5: "reachable example_config race_third_open"
    unfolding race_third_open_def
    by (rule reachable.next_state [OF 4 step.open_request])
  have c5: "2 < length (objects race_third_open)" "connecting (objects race_third_open ! 2)"
    by (simp_all add: race_third_open_eq)
  show ?thesis
    unfolding race_two_handles_def
    by (rule reachable.next_state [OF 5 step.open_callback [OF c5]])
qed

text \<open>
  C4 on the run above. Every step is a step of the bridge, so the last state is
  reachable; in it the second and the third object both hold a handle, and neither is
  closing. The guard of \<open>tryOpen\<close> was passed at the second \<open>/open\<close> because the first
  object, still being released, read as not open.
\<close>

theorem close_race_two_handles:
  "reachable example_config race_two_handles \<and>
   open_handles race_two_handles = 2 \<and>
   map handle (objects race_two_handles) = [False, True, True] \<and>
   map closing (objects race_two_handles) = [False, False, False] \<and>
   link race_closing = Closed \<and> open_handles race_closing = 1"
  using race_reachable
  by (simp add: open_handles_def race_two_handles_eq race_closing_eq link_def port_isOpen_def isOpen_def)


section \<open>Opening the link\<close>

lemma tryOpen_failed:
  assumes "\<not> opening_flag s" "\<not> port_isOpen s" "out \<noteq> Opened"
  shows "port (tryOpen cfg p out s) = None" "\<not> opening_flag (tryOpen cfg p out s)"
  using assms
  by (cases out; simp add: tryOpen_def tryOpen_begin_def tryOpen_resume_def tryOpen_threw_def
      Let_def new_SerialPort_def)+

text \<open>
  C2, as the code has it. When \<open>/open\<close> is called on a Closed link and the acquisition
  fails (the constructor throws or the callback of \<open>port.open\<close> reports an error), the link
  is Closed again with \<open>port\<close> cleared, and the caller is answered status 200 with
  \<open>{ ok: true, opened: false, path, baud }\<close>: the cause is logged by \<open>tryOpen\<close> and is not
  in the response, which is not a failure. Only a \<open>baud\<close> that has no conversion to text
  ends the handler earlier: then nothing is answered, no acquisition is tried, and the
  state, Closed, stays as it was.
\<close>

theorem open_failure_answers_opened_false:
  assumes "link s = Closed" and "out \<noteq> Opened"
  shows "(\<forall>b. open_baud cfg reqbody = Some b \<longrightarrow>
            fst (open_handler cfg reqbody out s) =
              Some (json_ok (OpenBody False (open_path cfg reqbody) b)) \<and>
            port (snd (open_handler cfg reqbody out s)) = None) \<and>
         (open_baud cfg reqbody = None \<longrightarrow> open_handler cfg reqbody out s = (None, s)) \<and>
         (\<forall>r. fst (open_handler cfg reqbody out s) = Some r \<longrightarrow> \<not> is_failure r) \<and>
         link (snd (open_handler cfg reqbody out s)) = Closed"
proof -
  from assms(1) have c: "\<not> opening_flag s" "\<not> port_isOpen s"
    by (auto simp: link_def split: if_splits)
  let ?s' = "tryOpen cfg (open_path cfg reqbody) out s"
  have p: "port ?s' = None" and o: "\<not> opening_flag ?s'"
    using tryOpen_failed [OF c assms(2)] by auto
  from p have n: "\<not> port_isOpen ?s'" by (simp add: port_isOpen_def)
  show ?thesis
  proof (cases "open_baud cfg reqbody")
    case None
    then show ?thesis using assms(1) by (simp add: open_handler_def)
  next
    case (Some b)
    then show ?thesis using p o n
      by (simp add: open_handler_def Let_def link_def json_ok_def is_failure_def)
  qed
qed

lemma initial_Closed: "link initial = Closed"
  by (simp add: link_def initial_closed) (simp add: initial_def)

theorem open_failure_answers_opened_false_witness:
  "link initial = Closed \<and> OpenFailed ''No such file or directory'' \<noteq> Opened \<and>
   open_baud example_config None = Some (Exactly 9600) \<and>
   fst (open_handler example_config None (OpenFailed ''No such file or directory'') initial) =
     Some (json_ok (OpenBody False (open_path example_config None) (Exactly 9600))) \<and>
   port (snd (open_handler example_config None (OpenFailed ''No such file or directory'') initial)) = None \<and>
   link (snd (open_handler example_config None (OpenFailed ''No such file or directory'') initial)) = Closed"
proof -
  have f: "OpenFailed ''No such file or directory'' \<noteq> Opened" by simp
  from open_failure_answers_opened_false [OF initial_Closed f, of example_config None]
  show ?thesis using initial_Closed f open_baud_default by blast
qed

text \<open>
  The claim as the specification words it fails at the start state: the acquisition
  fails, and the response is the success shape with status 200, not a failure that
  carries the cause.
\<close>

theorem open_failure_not_surfaced:
  "link initial = Closed \<and>
   fst (open_handler example_config None (OpenFailed ''No such file or directory'') initial) =
     Some \<lparr>status = 200, payload = OpenBody False (JStr (js ''/dev/ttyUSB0'')) (Exactly 9600)\<rparr> \<and>
   \<not> is_failure (the (fst (open_handler example_config None (OpenFailed ''No such file or directory'') initial)))"
  by (simp add: open_handler_def open_baud_default initial_Closed)
    (simp add: tryOpen_def tryOpen_begin_def tryOpen_resume_def
      tryOpen_threw_def initial_def port_isOpen_def new_SerialPort_def json_ok_def
      is_failure_def open_path_def or_empty_object_def example_config_def Let_def)

lemma tryOpen_acquires:
  assumes "link s = Closed" and "String_json p \<noteq> None"
  shows "tryOpen cfg p Opened s =
           s\<lparr>objects := objects s @ [\<lparr>sp_path = p, baudRate = BAUD cfg, connecting = False,
                                        handle = True, closing = False\<rparr>],
             port := Some (length (objects s)), opening_flag := False\<rparr>"
proof -
  from assms(1) have c: "\<not> opening_flag s" "\<not> port_isOpen s"
    by (auto simp: link_def split: if_splits)
  from assms(2) obtain t where "String_json p = Some t"
    by auto
  with c show ?thesis
    by (simp add: tryOpen_def tryOpen_begin_def tryOpen_resume_def Let_def new_SerialPort_def)
qed

lemma open_baud_115200:
  "open_baud example_config
     (Some (JObj [(js ''path'', JStr (js ''/dev/ttyUSB1'')), (js ''baud'', JNum number_115200)])) =
   Some (Exactly 115200)"
  by (simp add: open_baud_def or_empty_object_def js_def number_115200_def)
    (simp add: parseInt10_115200 [unfolded js_def, simplified])

text \<open>
  C3 at a concrete request. With \<open>BAUD\<close> configured as 9600, \<open>/open\<close> with
  \<open>{ path: "/dev/ttyUSB1", baud: 115200 }\<close> on the start state opens the supplied path,
  at the configured 9600 and not at the supplied 115200, and answers \<open>baud: 115200\<close>.
\<close>

theorem open_ignores_supplied_baud:
  "open_handler example_config
     (Some (JObj [(js ''path'', JStr (js ''/dev/ttyUSB1'')), (js ''baud'', JNum number_115200)]))
     Opened initial =
   (Some (json_ok (OpenBody True (JStr (js ''/dev/ttyUSB1'')) (Exactly 115200))),
    \<lparr>objects = [\<lparr>sp_path = JStr (js ''/dev/ttyUSB1''), baudRate = number_9600,
                 connecting = False, handle = True, closing = False\<rparr>],
     port = Some 0, opening_flag = False, writes = []\<rparr>)"
  by (simp add: open_handler_def open_baud_115200)
    (simp add: tryOpen_def tryOpen_begin_def tryOpen_resume_def
      initial_def port_isOpen_def isOpen_def new_SerialPort_def
      open_path_def or_empty_object_def example_config_def Let_def js_def)

section \<open>Writes against a link that is not open\<close>

text \<open>
  C1. On a bridge whose \<open>port\<close> is not an open handle, \<open>/write-hex\<close>, \<open>/write-base64\<close>
  and \<open>/write-binary\<close> leave the whole state as it was, so nothing is handed to
  \<open>port.write\<close>, and with a valid payload (a hex text that passes \<open>isHex\<close>, a truthy
  \<open>b64\<close>, a binary body within the size limit) the answer is 503 \<open>serial not open\<close>.
\<close>

theorem closed_link_rejects_writes:
  assumes "\<not> port_isOpen s"
  shows "(snd (write_hex hexbody wo s) = s \<and>
          (isHex (get_prop (or_empty_object hexbody) (js ''hex''))
             \<longrightarrow> fst (write_hex hexbody wo s) = NotOpen)) \<and>
         (snd (write_base64 dec b64body wo s) = s \<and>
          (truthy (get_prop (or_empty_object b64body) (js ''b64''))
             \<longrightarrow> fst (write_base64 dec b64body wo s) = Some NotOpen)) \<and>
         (snd (write_binary octets wo s) = s \<and>
          (\<forall>bs. octets = Some bs \<and> length bs \<le> raw_limit
             \<longrightarrow> fst (write_binary octets wo s) = NotOpen))"
  using assms
  by (auto simp: write_hex_def write_base64_def write_binary_def write_binary_handler_def
      express_raw_def Let_def split: option.splits sum.splits raw_body.splits if_splits)

theorem closed_link_rejects_writes_witness:
  "\<not> port_isOpen initial \<and>
   write_hex (Some (JObj [(js ''hex'', JStr (js ''1B40''))])) Flushed initial = (NotOpen, initial) \<and>
   write_base64 (\<lambda>v. Some [72, 105]) (Some (JObj [(js ''b64'', JStr (js ''SGk=''))])) Flushed initial
     = (Some NotOpen, initial) \<and>
   write_binary (Some [27, 64]) Flushed initial = (NotOpen, initial)"
proof -
  have hex: "isHex (get_prop (or_empty_object (Some (JObj [(js ''hex'', JStr (js ''1B40''))]))) (js ''hex''))"
    by (simp add: or_empty_object_def js_def isHexDigit_def)
  have b64: "truthy (get_prop (or_empty_object (Some (JObj [(js ''b64'', JStr (js ''SGk=''))]))) (js ''b64''))"
    by (simp add: or_empty_object_def js_def)
  have bin: "length [27, 64 :: byte] \<le> raw_limit"
    by (simp add: raw_limit_def)
  from closed_link_rejects_writes [where s = initial and wo = Flushed
      and hexbody = "Some (JObj [(js ''hex'', JStr (js ''1B40''))])"
      and dec = "\<lambda>v. Some [72, 105]"
      and b64body = "Some (JObj [(js ''b64'', JStr (js ''SGk=''))])"
      and octets = "Some [27, 64]", OF initial_closed]
  show ?thesis
    using hex b64 bin initial_closed by (simp add: prod_eq_iff)
qed

section \<open>Hexadecimal payloads\<close>

lemma isHexDigit_value: "isHexDigit c \<Longrightarrow> \<exists>x. hex_value c = Some x"
  by (auto simp: isHexDigit_def hex_value_def)

lemma Buffer_from_hex_length:
  "list_all isHexDigit h \<Longrightarrow> length (Buffer_from_hex h) = length h div 2"
proof (induction h rule: Buffer_from_hex.induct)
  case (1 a b rest)
  then obtain x y where "hex_value a = Some x" "hex_value b = Some y"
    using isHexDigit_value by fastforce
  with 1 show ?case by simp
qed simp_all

lemma Buffer_from_hex_nth:
  "list_all isHexDigit h \<Longrightarrow> i < length h div 2 \<Longrightarrow>
   \<exists>x y. hex_value (h ! (2 * i)) = Some x \<and> hex_value (h ! (2 * i + 1)) = Some y \<and>
         Buffer_from_hex h ! i = of_nat (16 * x + y)"
proof (induction h arbitrary: i rule: Buffer_from_hex.induct)
  case (1 a b rest)
  then obtain x y where xy: "hex_value a = Some x" "hex_value b = Some y"
    using isHexDigit_value by fastforce
  show ?case
  proof (cases i)
    case 0
    with xy show ?thesis by simp
  next
    case (Suc j)
    with 1 xy have "\<exists>x y. hex_value (rest ! (2 * j)) = Some x \<and> hex_value (rest ! (2 * j + 1)) = Some y \<and>
         Buffer_from_hex rest ! j = of_nat (16 * x + y)" by simp
    with Suc xy show ?thesis by simp
  qed
qed simp_all

lemma isHex_iff: "isHex v \<longleftrightarrow> (\<exists>h. v = Some (JStr h) \<and> h \<noteq> [] \<and> list_all isHexDigit h \<and> even (length h))"
  by (cases v rule: isHex.cases) (auto simp: even_iff_mod_2_eq_zero)

text \<open>
  C5, as the code has it. For every non-empty text of hexadecimal digits of even length,
  \<open>/write-hex\<close> on an open link whose write is flushed answers \<open>bytes\<close> as half the
  length of the text, and the buffer handed to the port is the decoded text: byte \<open>i\<close> is
  sixteen times the value of digit \<open>2i\<close> plus the value of digit \<open>2i + 1\<close>. Every other
  \<open>hex\<close> (the empty text, an odd length, a character that is no hexadecimal digit, a value
  that is no string, no value) is answered 400 \<open>invalid hex\<close> with the state unchanged.
\<close>

theorem write_hex_nonempty_even_hex:
  "(get_prop (or_empty_object reqbody) (js ''hex'') = Some (JStr h) \<and> h \<noteq> [] \<and>
    list_all isHexDigit h \<and> even (length h) \<and> port_isOpen s \<longrightarrow>
      write_hex reqbody Flushed s =
        (json_ok (BytesBody (length h div 2)), s\<lparr>writes := writes s @ [Buffer_from_hex h]\<rparr>) \<and>
      length (Buffer_from_hex h) = length h div 2 \<and>
      (\<forall>i<length h div 2. \<exists>x y. hex_value (h ! (2 * i)) = Some x \<and> hex_value (h ! (2 * i + 1)) = Some y \<and>
           Buffer_from_hex h ! i = of_nat (16 * x + y))) \<and>
   ((\<forall>h. get_prop (or_empty_object reqbody) (js ''hex'') = Some (JStr h) \<longrightarrow>
          h = [] \<or> \<not> list_all isHexDigit h \<or> odd (length h)) \<longrightarrow>
      write_hex reqbody wo s = (InvalidEncoding, s))"
proof (intro conjI impI allI)
  assume a: "get_prop (or_empty_object reqbody) (js ''hex'') = Some (JStr h) \<and> h \<noteq> [] \<and>
    list_all isHexDigit h \<and> even (length h) \<and> port_isOpen s"
  then have "isHex (get_prop (or_empty_object reqbody) (js ''hex''))" by (simp add: isHex_iff)
  with a show "write_hex reqbody Flushed s =
        (json_ok (BytesBody (length h div 2)), s\<lparr>writes := writes s @ [Buffer_from_hex h]\<rparr>)"
    by (simp add: write_hex_def Let_def port_write_def Buffer_from_hex_length)
  from a show "length (Buffer_from_hex h) = length h div 2" by (simp add: Buffer_from_hex_length)
  fix i assume "i < length h div 2"
  moreover from a have "list_all isHexDigit h" by simp
  ultimately show "\<exists>x y. hex_value (h ! (2 * i)) = Some x \<and> hex_value (h ! (2 * i + 1)) = Some y \<and>
           Buffer_from_hex h ! i = of_nat (16 * x + y)" by (rule Buffer_from_hex_nth [rotated])
next
  assume "\<forall>h. get_prop (or_empty_object reqbody) (js ''hex'') = Some (JStr h) \<longrightarrow>
          h = [] \<or> \<not> list_all isHexDigit h \<or> odd (length h)"
  then have "\<not> isHex (get_prop (or_empty_object reqbody) (js ''hex''))" by (auto simp: isHex_iff)
  then show "write_hex reqbody wo s = (InvalidEncoding, s)" by (simp add: write_hex_def Let_def)
qed

text \<open>
  The empty text has only hexadecimal digits and an even length, and is rejected: the
  pattern of \<open>isHex\<close> asks for one digit at least.
\<close>

theorem write_hex_rejects_empty_text:
  "list_all isHexDigit [] \<and> even (length ([] :: jsstring)) \<and>
   write_hex (Some (JObj [(js ''hex'', JStr [])])) Flushed example_open = (InvalidEncoding, example_open)"
  by (simp add: write_hex_def or_empty_object_def js_def)

theorem write_hex_nonempty_even_hex_witness:
  "port_isOpen example_open \<and> list_all isHexDigit (js ''1B40'') \<and> even (length (js ''1B40'')) \<and>
   write_hex (Some (JObj [(js ''hex'', JStr (js ''1B40''))])) Flushed example_open =
     (json_ok (BytesBody 2), example_open\<lparr>writes := [[0x1B, 0x40]]\<rparr>) \<and>
   write_hex (Some (JObj [(js ''hex'', JStr (js ''1B4''))])) Flushed example_open = (InvalidEncoding, example_open) \<and>
   write_hex (Some (JObj [(js ''hex'', JNum number_1234)])) Flushed example_open = (InvalidEncoding, example_open)"
proof -
  have g: "get_prop (or_empty_object (Some (JObj [(js ''hex'', JStr (js ''1B40''))]))) (js ''hex'') = Some (JStr (js ''1B40''))"
    by (simp add: or_empty_object_def)
  have v: "js ''1B40'' \<noteq> []" "list_all isHexDigit (js ''1B40'')" "even (length (js ''1B40''))"
    by (simp_all add: js_def isHexDigit_def)
  have b: "Buffer_from_hex (js ''1B40'') = [0x1B, 0x40]" by (simp add: js_def hex_value_def)
  have w: "writes example_open = []" by (simp add: example_open_eq)
  have odd3: "\<forall>h. get_prop (or_empty_object (Some (JObj [(js ''hex'', JStr (js ''1B4''))]))) (js ''hex'') = Some (JStr h) \<longrightarrow>
          h = [] \<or> \<not> list_all isHexDigit h \<or> odd (length h)"
    by (simp add: or_empty_object_def js_def)
  have num: "\<forall>h. get_prop (or_empty_object (Some (JObj [(js ''hex'', JNum number_1234)]))) (js ''hex'') = Some (JStr h) \<longrightarrow>
          h = [] \<or> \<not> list_all isHexDigit h \<or> odd (length h)"
    by (simp add: or_empty_object_def)
  have l: "length (js ''1B40'') div 2 = 2" by (simp add: js_def)
  have 1: "write_hex (Some (JObj [(js ''hex'', JStr (js ''1B40''))])) Flushed example_open =
     (json_ok (BytesBody 2), example_open\<lparr>writes := [[0x1B, 0x40]]\<rparr>)"
  proof -
    have e: "(json_ok (BytesBody (length (js ''1B40'') div 2)),
              example_open\<lparr>writes := writes example_open @ [Buffer_from_hex (js ''1B40'')]\<rparr>) =
             (json_ok (BytesBody 2), example_open\<lparr>writes := [[0x1B, 0x40]]\<rparr>)"
      by (simp only: b w l append_Nil)
    from write_hex_nonempty_even_hex [of "Some (JObj [(js ''hex'', JStr (js ''1B40''))])" "js ''1B40''" example_open Flushed]
      g v example_open_isOpen
    have "write_hex (Some (JObj [(js ''hex'', JStr (js ''1B40''))])) Flushed example_open =
            (json_ok (BytesBody (length (js ''1B40'') div 2)),
              example_open\<lparr>writes := writes example_open @ [Buffer_from_hex (js ''1B40'')]\<rparr>)"
      by blast
    then show ?thesis by (simp only: e)
  qed
  have 2: "write_hex (Some (JObj [(js ''hex'', JStr (js ''1B4''))])) Flushed example_open = (InvalidEncoding, example_open)"
    using write_hex_nonempty_even_hex [of "Some (JObj [(js ''hex'', JStr (js ''1B4''))])" "[]" example_open Flushed] odd3 by blast
  have 3: "write_hex (Some (JObj [(js ''hex'', JNum number_1234)])) Flushed example_open = (InvalidEncoding, example_open)"
    using write_hex_nonempty_even_hex [of "Some (JObj [(js ''hex'', JNum number_1234)])" "[]" example_open Flushed] num by blast
  show ?thesis using 1 2 3 v example_open_isOpen by simp
qed

section \<open>Text to uppercase hexadecimal\<close>

lemma upper_digit: "d < 16 \<Longrightarrow> upper_unit (digit_char d) = upper_hex_digit d"
proof -
  have "\<forall>d\<in>set [0..<16]. upper_unit (digit_char d) = upper_hex_digit d"
    by (simp add: upt_rec upper_unit_def digit_char_def upper_hex_digit_def js_def)
  then show "d < 16 \<Longrightarrow> upper_unit (digit_char d) = upper_hex_digit d" by simp
qed

lemma toString16_1: "n < 16 \<Longrightarrow> toString_radix 16 n = [digit_char n]"
  by (simp add: toString_radix.simps)

lemma toString16_2: "16 \<le> n \<Longrightarrow> n < 256 \<Longrightarrow> toString_radix 16 n = [digit_char (n div 16), digit_char (n mod 16)]"
  by (subst toString_radix.simps) (simp add: toString16_1)

lemma div16_div16: "(n::nat) div 16 div 16 = n div 256"
proof -
  have "n div (16 * 16) = n div 16 div 16" by (rule div_mult2_eq)
  then show ?thesis by simp
qed

lemma div16_div256: "(n::nat) div 16 div 256 = n div 4096"
proof -
  have "n div (16 * 256) = n div 16 div 256" by (rule div_mult2_eq)
  then show ?thesis by simp
qed

lemma toString16_3: "256 \<le> n \<Longrightarrow> n < 4096 \<Longrightarrow> toString_radix 16 n = [digit_char (n div 256), digit_char (n div 16 mod 16), digit_char (n mod 16)]"
  by (subst toString_radix.simps) (simp add: toString16_2 div16_div16)

lemma toString16_4: "4096 \<le> n \<Longrightarrow> n < 65536 \<Longrightarrow> toString_radix 16 n = [digit_char (n div 4096), digit_char (n div 256 mod 16), digit_char (n div 16 mod 16), digit_char (n mod 16)]"
  by (subst toString_radix.simps) (simp add: toString16_3 div16_div16 div16_div256)

lemma upper_hex_2: "upper_hex 2 n = [upper_hex_digit (n div 16 mod 16), upper_hex_digit (n mod 16)]"
  by (simp add: upper_hex_def upt_rec)

lemma upper_hex_3:
  "upper_hex 3 n = [upper_hex_digit (n div 256 mod 16), upper_hex_digit (n div 16 mod 16),
                    upper_hex_digit (n mod 16)]"
  by (simp add: upper_hex_def upt_rec)

lemma upper_hex_4:
  "upper_hex 4 n = [upper_hex_digit (n div 4096 mod 16), upper_hex_digit (n div 256 mod 16),
                    upper_hex_digit (n div 16 mod 16), upper_hex_digit (n mod 16)]"
  by (simp add: upper_hex_def upt_rec)

lemma upper_zero: "upper_unit 48 = upper_hex_digit 0"
  by (simp add: upper_unit_def upper_hex_digit_def js_def)

lemma upper_unit_hex: "toUpperCase (unit_hex c) = upper_hex (digits_emitted c) (unat c)"
proof -
  let ?n = "unat c"
  have b: "?n < 65536" using unsigned_less [of c, where 'a = nat] by simp
  consider "?n < 16" | "16 \<le> ?n" "?n < 256" | "256 \<le> ?n" "?n < 4096" | "4096 \<le> ?n" by linarith
  then show ?thesis
  proof cases
    case 1
    then have "c \<le> 255" by (simp add: word_le_nat_alt)
    with 1 show ?thesis
      by (simp add: unit_hex_def toString16_1 padStart2_def toUpperCase_def digits_emitted_def
          upper_hex_2 upper_digit upper_zero)
  next
    case 2
    then have "c \<le> 255" by (simp add: word_le_nat_alt)
    with 2 show ?thesis
      by (simp add: unit_hex_def toString16_2 padStart2_def toUpperCase_def digits_emitted_def
          upper_hex_2 upper_digit less_mult_imp_div_less)
  next
    case 3
    then have "\<not> c \<le> 255" "c \<le> 4095" by (simp_all add: word_le_nat_alt)
    with 3 show ?thesis
      by (simp add: unit_hex_def toString16_3 padStart2_def toUpperCase_def digits_emitted_def
          upper_hex_3 upper_digit less_mult_imp_div_less)
  next
    case 4
    then have "\<not> c \<le> 255" "\<not> c \<le> 4095" by (simp_all add: word_le_nat_alt)
    with 4 b show ?thesis
      by (simp add: unit_hex_def toString16_4 padStart2_def toUpperCase_def digits_emitted_def
          upper_hex_4 upper_digit less_mult_imp_div_less)
  qed
qed

lemma asciiToHex_loop_concat: "asciiToHex_loop out str = out @ concat (map unit_hex str)"
  by (induction str arbitrary: out) simp_all

lemma asciiToHex_str_concat: "asciiToHex_str str = concat (map (\<lambda>c. upper_hex (digits_emitted c) (unat c)) str)"
  by (simp add: asciiToHex_str_def asciiToHex_loop_concat toUpperCase_def map_concat comp_def upper_unit_hex [unfolded toUpperCase_def])

lemma length_upper_hex: "length (upper_hex k n) = k" by (simp add: upper_hex_def)

lemma upper_hex_byte:
  "c \<le> 255 \<Longrightarrow> upper_hex (digits_emitted c) (unat c) =
      [upper_hex_digit (unat c div 16), upper_hex_digit (unat c mod 16)]"
proof -
  assume a: "c \<le> 255"
  then have "unat c < 256" by (simp add: word_le_nat_alt)
  then have "unat c div 16 < 16" by simp
  with a show ?thesis by (simp add: digits_emitted_def upper_hex_2)
qed

text \<open>
  On a text whose code units are all at most 0xFF the helper does write exactly two
  uppercase digits for each; in general it writes \<open>digits_emitted\<close> of them.
\<close>

lemma asciiToHex_digits:
  "asciiToHex_str str = concat (map (\<lambda>c. upper_hex (digits_emitted c) (unat c)) str) \<and>
   ((\<forall>c\<in>set str. c \<le> 255) \<longrightarrow>
      asciiToHex_str str =
        concat (map (\<lambda>c. [upper_hex_digit (unat c div 16), upper_hex_digit (unat c mod 16)]) str) \<and>
      length (asciiToHex_str str) = 2 * length str)"
proof (intro conjI impI)
  show "asciiToHex_str str = concat (map (\<lambda>c. upper_hex (digits_emitted c) (unat c)) str)"
    by (rule asciiToHex_str_concat)
next
  assume a: "\<forall>c\<in>set str. c \<le> 255"
  then have m: "map (\<lambda>c. upper_hex (digits_emitted c) (unat c)) str =
             map (\<lambda>c. [upper_hex_digit (unat c div 16), upper_hex_digit (unat c mod 16)]) str"
    by (simp add: upper_hex_byte)
  show e: "asciiToHex_str str =
        concat (map (\<lambda>c. [upper_hex_digit (unat c div 16), upper_hex_digit (unat c mod 16)]) str)"
    by (simp only: asciiToHex_str_concat m)
  show "length (asciiToHex_str str) = 2 * length str"
    unfolding e by (induction str) simp_all
qed

text \<open>
  C6 at concrete texts. The helper is commented \<open>2-digit per byte, uppercase\<close> and pads
  to two digits, but a code unit above 0xFF is neither cut to its low byte nor rejected:
  0x0100 gives the three digits \<open>100\<close> and 0x4E2D the four digits \<open>4E2D\<close>. After three
  digits the hexadecimal text is out of step: a station name of the one character
  0x0100 makes the first line of the receipt decode to the bytes \<open>10 00\<close> and lose the
  line feed. The helper of the mobile screen, \<open>convertToHex\<close>, does not write two
  uppercase digits even for ASCII: the text \<open>J\<close>, line feed gives \<open>4aa\<close>.
\<close>

theorem asciiToHex_wide_unit_not_two_digits:
  "asciiToHex_str [0x0100] = js ''100'' \<and>
   asciiToHex_str [0x4E2D] = js ''4E2D'' \<and>
   Buffer_from_hex (js ''1B401B6101'' @ asciiToHex_str [0x0100] @ js ''0A'') =
     [0x1B, 0x40, 0x1B, 0x61, 0x01, 0x10, 0x00] \<and>
   convertToHex (js ''J\<newline>'') = js ''4aa''"
  by (simp add: asciiToHex_str_def unit_hex_def padStart2_def toString_radix.simps digit_char_def
      toUpperCase_def upper_unit_def convertToHex_def hex_value_def js_def)

section \<open>Binary payloads\<close>

text \<open>
  C9, as the code has it. \<open>/write-binary\<close> answers 400 \<open>missing binary body\<close> when the
  request has no binary body and 413 when the body is over 2 MiB, both with the state
  unchanged; every other body, also an empty one, is handed to the port as it is on an
  open link, and \<open>bytes\<close> is its length.
\<close>

theorem write_binary_passthrough:
  "write_binary None wo s = (MissingPayload_binary, s) \<and>
   (raw_limit < length bs \<longrightarrow> write_binary (Some bs) wo s = (PayloadTooLarge, s)) \<and>
   (length bs \<le> raw_limit \<and> port_isOpen s \<longrightarrow>
      write_binary (Some bs) Flushed s =
        (json_ok (BytesBody (length bs)), s\<lparr>writes := writes s @ [bs]\<rparr>))"
  by (simp add: write_binary_def express_raw_def write_binary_handler_def port_write_def)

text \<open>
  An empty binary body on an open link is not refused: a Buffer of length 0 is truthy and
  is a Buffer, so the write goes ahead and the answer is \<open>bytes: 0\<close>.
\<close>

theorem write_binary_accepts_empty_buffer:
  "write_binary (Some []) Flushed example_open =
     (json_ok (BytesBody 0), example_open\<lparr>writes := [[]]\<rparr>) \<and>
   fst (write_binary (Some []) Flushed example_open) \<noteq> MissingPayload_binary"
  by (simp add: write_binary_def write_binary_handler_def express_raw_def raw_limit_def
      example_open_isOpen port_write_def MissingPayload_binary_def json_ok_def json_error_def)
    (simp add: example_open_eq)

theorem write_binary_passthrough_witness:
  "raw_limit < length (replicate 2097153 (0::byte)) \<and>
   write_binary (Some (replicate 2097153 0)) Flushed example_open = (PayloadTooLarge, example_open) \<and>
   length [27, 64 :: byte] \<le> raw_limit \<and> port_isOpen example_open \<and>
   write_binary (Some [27, 64]) Flushed example_open =
     (json_ok (BytesBody 2), example_open\<lparr>writes := [[27, 64]]\<rparr>)"
proof -
  have big: "raw_limit < length (replicate 2097153 (0::byte))" by (simp add: raw_limit_def)
  have small: "length [27, 64 :: byte] \<le> raw_limit" by (simp add: raw_limit_def)
  have w: "writes example_open = []" by (simp add: example_open_eq)
  from write_binary_passthrough [of Flushed example_open "replicate 2097153 0"] big
  have 1: "write_binary (Some (replicate 2097153 0)) Flushed example_open = (PayloadTooLarge, example_open)"
    by blast
  have l2: "length [27, 64 :: byte] = 2" by simp
  from write_binary_passthrough [of Flushed example_open "[27, 64]"] small example_open_isOpen
  have "write_binary (Some [27, 64]) Flushed example_open =
     (json_ok (BytesBody (length [27, 64 :: byte])),
      example_open\<lparr>writes := writes example_open @ [[27, 64]]\<rparr>)" by blast
  then have 2: "write_binary (Some [27, 64]) Flushed example_open =
     (json_ok (BytesBody 2), example_open\<lparr>writes := [[27, 64]]\<rparr>)"
    by (simp only: l2 w append_Nil)
  show ?thesis using big small 1 2 example_open_isOpen by blast
qed



section \<open>The voucher receipt\<close>

lemma station_default:
  assumes "reqbody = None \<or> reqbody = Some (JObj [])"
  shows "station_of reqbody = get_prop defaultStation"
  using assms by (auto simp: station_of_def or_empty_object_def fun_eq_iff Let_def split: option.splits)

lemma voucher_default:
  assumes "reqbody = None \<or> reqbody = Some (JObj [])"
  shows "voucher_of now reqbody = get_prop (defaultVoucher now)"
  using assms by (auto simp: voucher_of_def or_empty_object_def fun_eq_iff Let_def split: option.splits)

lemma defaultStation_fields:
  "get_prop defaultStation (js ''name'') = Some (JStr (js ''My Station''))"
  "get_prop defaultStation (js ''address'') = Some (JStr (js ''123 Main St''))"
  "get_prop defaultStation (js ''city'') = Some (JStr (js ''Yangon''))"
  "get_prop defaultStation (js ''state'') = Some (JStr (js ''MM''))"
  "get_prop defaultStation (js ''phone1'') = Some (JStr (js ''09-123456789''))"
  "get_prop defaultStation (js ''phone2'') = Some (JStr (js ''09-987654321''))"
  by (simp_all add: defaultStation_def js_def)

lemma defaultVoucher_fields:
  "get_prop (defaultVoucher now) (js ''dailyReportDate'') = Some (JStr (toDateString now))"
  "get_prop (defaultVoucher now) (js ''createAt'') = Some (JStr (toISOString now))"
  "get_prop (defaultVoucher now) (js ''nozzleNo'') = Some (JStr (js ''01''))"
  "get_prop (defaultVoucher now) (js ''vocono'') = Some (JStr (js ''VC123456''))"
  "get_prop (defaultVoucher now) (js ''salePrice'') = Some (JStr (js ''2530''))"
  "get_prop (defaultVoucher now) (js ''saleLiter'') = Some (JStr (js ''10.50''))"
  "get_prop (defaultVoucher now) (js ''totalPrice'') = Some (JStr (js ''26565''))"
  "get_prop (defaultVoucher now) (js ''fuelType'') = Some (JStr (js ''OCTANE 95''))"
  by (simp_all add: defaultVoucher_def js_def)


lemma hex_value_upper: "d < 16 \<Longrightarrow> hex_value (upper_hex_digit d) = Some d"
proof -
  have "\<forall>d\<in>set [0..<16]. hex_value (upper_hex_digit d) = Some d"
    by (simp add: upt_rec hex_value_def upper_hex_digit_def js_def)
  then show "d < 16 \<Longrightarrow> hex_value (upper_hex_digit d) = Some d" by simp
qed

lemma Buffer_from_hex_byte:
  assumes "c \<le> 255"
  shows "Buffer_from_hex (upper_hex (digits_emitted c) (unat c) @ rest) = ucast c # Buffer_from_hex rest"
proof -
  from assms have "unat c < 256" by (simp add: word_le_nat_alt)
  then have d: "unat c div 16 < 16" "unat c mod 16 < 16" by simp_all
  have "(of_nat (16 * (unat c div 16) + unat c mod 16) :: byte) = of_nat (unat c)" by simp
  with assms d show ?thesis
    by (simp add: upper_hex_byte hex_value_upper del: of_nat_add of_nat_mult)
qed

lemma Buffer_from_hex_asciiToHex:
  "\<forall>c\<in>set str. c \<le> 255 \<Longrightarrow>
   Buffer_from_hex (asciiToHex_str str @ rest) = map ucast str @ Buffer_from_hex rest"
proof (induction str)
  case Nil
  then show ?case by (simp add: asciiToHex_str_concat)
next
  case (Cons c cs)
  then have "Buffer_from_hex (asciiToHex_str cs @ rest) = map ucast cs @ Buffer_from_hex rest" by simp
  moreover have "asciiToHex_str (c # cs) = upper_hex (digits_emitted c) (unat c) @ asciiToHex_str cs"
    by (simp add: asciiToHex_str_concat)
  ultimately show ?case using Cons.prems by (simp add: Buffer_from_hex_byte)
qed


lemma Buffer_from_hex_append:
  "list_all isHexDigit a \<Longrightarrow> even (length a) \<Longrightarrow>
   Buffer_from_hex (a @ b) = Buffer_from_hex a @ Buffer_from_hex b"
proof (induction a rule: Buffer_from_hex.induct)
  case (1 x y rest)
  then obtain u v where "hex_value x = Some u" "hex_value y = Some v"
    using isHexDigit_value by fastforce
  with 1 show ?case by simp
qed simp_all

lemma default_fullHex:
  assumes "reqbody = None \<or> reqbody = Some (JObj [])"
  shows "\<exists>rest. fullHex now reqbody = Some
    (js ''1B401B6101'' @ asciiToHex_str (js ''My Station'') @ js ''0A'' @
     asciiToHex_str (js ''123 Main St'' @ js '', '' @ js ''Yangon'' @ js '', '' @ js ''MM'') @ js ''0A'' @
     asciiToHex_str (js ''09-123456789'') @ js ''2C20'' @ asciiToHex_str (js ''09-987654321'') @ js ''0A'' @
     js ''1B6100'' @ dashes @
     js ''564F434F4E4F202020'' @ asciiToHex_str (js ''VC123456'') @ rest)"
  by (simp add: fullHex_def hexChunks_def Let_def timeHex_of_def hex_of_String_def
      station_default [OF assms] voucher_default [OF assms]
      defaultStation_fields defaultVoucher_fields)

lemma name_hex: "asciiToHex_str (js ''My Station'') = js ''4D792053746174696F6E''"
  by (simp add: asciiToHex_str_def unit_hex_def padStart2_def toString_radix.simps digit_char_def
      toUpperCase_def upper_unit_def js_def)

lemma vocono_hex: "asciiToHex_str (js ''VC123456'') = js ''5643313233343536''"
  by (simp add: asciiToHex_str_def unit_hex_def padStart2_def toString_radix.simps digit_char_def
      toUpperCase_def upper_unit_def js_def)

lemma default_receipt:
  assumes "reqbody = None \<or> reqbody = Some (JObj [])"
  shows "\<exists>hex buf. fullHex now reqbody = Some hex \<and> voucher_buffer now reqbody = Some buf \<and>
           buf \<noteq> [] \<and>
           sublist (ascii_bytes ''My Station'') buf \<and> sublist (ascii_bytes ''VC123456'') buf \<and>
           sublist (js ''4D792053746174696F6E'') hex \<and> sublist (js ''5643313233343536'') hex"
proof -
  from default_fullHex [OF assms] obtain tl where f: "fullHex now reqbody = Some
    (js ''1B401B6101'' @ asciiToHex_str (js ''My Station'') @ js ''0A'' @
     asciiToHex_str (js ''123 Main St'' @ js '', '' @ js ''Yangon'' @ js '', '' @ js ''MM'') @ js ''0A'' @
     asciiToHex_str (js ''09-123456789'') @ js ''2C20'' @ asciiToHex_str (js ''09-987654321'') @ js ''0A'' @
     js ''1B6100'' @ dashes @
     js ''564F434F4E4F202020'' @ asciiToHex_str (js ''VC123456'') @ tl)" by blast
  let ?hex = "js ''1B401B6101'' @ asciiToHex_str (js ''My Station'') @ js ''0A'' @
     asciiToHex_str (js ''123 Main St'' @ js '', '' @ js ''Yangon'' @ js '', '' @ js ''MM'') @ js ''0A'' @
     asciiToHex_str (js ''09-123456789'') @ js ''2C20'' @ asciiToHex_str (js ''09-987654321'') @ js ''0A'' @
     js ''1B6100'' @ dashes @
     js ''564F434F4E4F202020'' @ asciiToHex_str (js ''VC123456'') @ tl"
  have lit: "list_all isHexDigit (js ''1B401B6101'')" "even (length (js ''1B401B6101''))"
            "list_all isHexDigit (js ''0A'')" "even (length (js ''0A''))"
            "list_all isHexDigit (js ''2C20'')" "even (length (js ''2C20''))"
            "list_all isHexDigit (js ''1B6100'')" "even (length (js ''1B6100''))"
            "list_all isHexDigit dashes" "even (length dashes)"
            "list_all isHexDigit (js ''564F434F4E4F202020'')" "even (length (js ''564F434F4E4F202020''))"
    by (simp_all add: js_def isHexDigit_def dashes_def)
  have asc:
    "\<And>r. Buffer_from_hex (asciiToHex_str (js ''My Station'') @ r) =
          map ucast (js ''My Station'') @ Buffer_from_hex r"
    "\<And>r. Buffer_from_hex
            (asciiToHex_str (js ''123 Main St'' @ js '', '' @ js ''Yangon'' @ js '', '' @ js ''MM'') @ r) =
          map ucast (js ''123 Main St'' @ js '', '' @ js ''Yangon'' @ js '', '' @ js ''MM'') @
          Buffer_from_hex r"
    "\<And>r. Buffer_from_hex (asciiToHex_str (js ''09-123456789'') @ r) =
          map ucast (js ''09-123456789'') @ Buffer_from_hex r"
    "\<And>r. Buffer_from_hex (asciiToHex_str (js ''09-987654321'') @ r) =
          map ucast (js ''09-987654321'') @ Buffer_from_hex r"
    "\<And>r. Buffer_from_hex (asciiToHex_str (js ''VC123456'') @ r) =
          map ucast (js ''VC123456'') @ Buffer_from_hex r"
    by (rule Buffer_from_hex_asciiToHex, simp add: js_def)+
  have b1: "Buffer_from_hex (js ''1B401B6101'') = [0x1B, 0x40, 0x1B, 0x61, 0x01]"
    by (simp add: js_def hex_value_def)
  have n: "map ucast (js ''My Station'') = ascii_bytes ''My Station''"
          "map ucast (js ''VC123456'') = ascii_bytes ''VC123456''"
    by (simp_all add: js_def ascii_bytes_def)
  obtain mid where b: "Buffer_from_hex ?hex =
     [0x1B, 0x40, 0x1B, 0x61, 0x01] @ ascii_bytes ''My Station'' @ mid @
     ascii_bytes ''VC123456'' @ Buffer_from_hex tl"
  proof
    show "Buffer_from_hex ?hex =
     [0x1B, 0x40, 0x1B, 0x61, 0x01] @ ascii_bytes ''My Station'' @
     (Buffer_from_hex (js ''0A'') @
      map ucast (js ''123 Main St'' @ js '', '' @ js ''Yangon'' @ js '', '' @ js ''MM'') @
      Buffer_from_hex (js ''0A'') @ map ucast (js ''09-123456789'') @ Buffer_from_hex (js ''2C20'') @
      map ucast (js ''09-987654321'') @ Buffer_from_hex (js ''0A'') @ Buffer_from_hex (js ''1B6100'') @
      Buffer_from_hex dashes @ Buffer_from_hex (js ''564F434F4E4F202020'')) @
     ascii_bytes ''VC123456'' @ Buffer_from_hex tl"
      by (simp only: Buffer_from_hex_append lit asc b1 n append_assoc)
  qed
  obtain a c where h: "?hex = a @ js ''4D792053746174696F6E'' @ c @ js ''5643313233343536'' @ tl"
    unfolding name_hex vocono_hex by (metis append.assoc)
  have 1: "sublist (ascii_bytes ''My Station'') (Buffer_from_hex ?hex)"
    unfolding b sublist_def by blast
  have 2: "sublist (ascii_bytes ''VC123456'') (Buffer_from_hex ?hex)"
    unfolding b sublist_def by (metis append.assoc)
  have 3: "sublist (js ''4D792053746174696F6E'') ?hex"
    unfolding h sublist_def by blast
  have 4: "sublist (js ''5643313233343536'') ?hex"
    unfolding h sublist_def by (metis append.assoc)
  have 5: "Buffer_from_hex ?hex \<noteq> []" unfolding b by simp
  have "voucher_buffer now reqbody = Some (Buffer_from_hex ?hex)"
    by (simp add: voucher_buffer_def f)
  with f 1 2 3 4 5 show ?thesis by blast
qed

lemma print_voucher_flushed:
  "port_isOpen s \<Longrightarrow> voucher_buffer now reqbody = Some buf \<Longrightarrow>
   print_voucher now reqbody Flushed s =
     (json_ok (VoucherBody (length buf) (usedDefaults reqbody)),
      s\<lparr>writes := writes s @ [buf]\<rparr>)"
  by (simp add: print_voucher_def port_write_def)

lemma usedDefaults_keys:
  "usedDefaults reqbody = (case reqbody of None \<Rightarrow> True | Some v \<Rightarrow> keys_length v = 0)"
proof (cases reqbody)
  case None
  then show ?thesis by (simp add: usedDefaults_def)
next
  case (Some v)
  then show ?thesis by (cases v) (auto simp: usedDefaults_def)
qed

lemma hexChunks_cong:
  "station_of a = station_of b \<Longrightarrow> voucher_of now a = voucher_of now b \<Longrightarrow>
   hexChunks now a = hexChunks now b"
  by (simp add: hexChunks_def timeHex_of_def)

lemma voucher_buffer_cong:
  assumes "station_of a = station_of b" "voucher_of now a = voucher_of now b"
  shows "voucher_buffer now a = voucher_buffer now b"
  using hexChunks_cong [OF assms] by (simp add: voucher_buffer_def fullHex_def)

lemma empty_object_same: "voucher_buffer now (Some (JObj [])) = voucher_buffer now None"
  by (rule voucher_buffer_cong; rule ext; simp add: station_of_def voucher_of_def or_empty_object_def Let_def)

lemma empty_station_same:
  "voucher_buffer now (Some (JObj [(js ''station'', JObj [])])) = voucher_buffer now None"
  by (rule voucher_buffer_cong; rule ext;
      simp add: station_of_def voucher_of_def or_empty_object_def js_def Let_def)

lemma empty_records_same:
  "voucher_buffer now (Some (JObj [(js ''station'', JObj []), (js ''voucher'', JObj [])])) =
   voucher_buffer now None"
  by (rule voucher_buffer_cong; rule ext;
      simp add: station_of_def voucher_of_def or_empty_object_def js_def Let_def)


text \<open>
  C7, as the code has it. With no request body, or a body with no keys, \<open>/print-voucher\<close>
  on an open link whose write is flushed succeeds with \<open>usedDefaults = true\<close>; the
  buffer it hands to the port is not empty and contains the ASCII bytes of the default
  station name \<open>My Station\<close> and of the default voucher number \<open>VC123456\<close>, and the
  hexadecimal text it was decoded from contains their uppercase encodings. With an empty
  station record and an empty voucher record supplied, \<open>{ station: {}, voucher: {} }\<close>,
  the same receipt is printed and \<open>usedDefaults\<close> is false: the body has two keys.
\<close>

theorem print_voucher_defaults:
  assumes "port_isOpen s"
  shows "\<exists>hex buf.
           fullHex now None = Some hex \<and> voucher_buffer now None = Some buf \<and> buf \<noteq> [] \<and>
           sublist (ascii_bytes ''My Station'') buf \<and> sublist (ascii_bytes ''VC123456'') buf \<and>
           sublist (js ''4D792053746174696F6E'') hex \<and> sublist (js ''5643313233343536'') hex \<and>
           print_voucher now None Flushed s =
             (json_ok (VoucherBody (length buf) True), s\<lparr>writes := writes s @ [buf]\<rparr>) \<and>
           print_voucher now (Some (JObj [])) Flushed s =
             (json_ok (VoucherBody (length buf) True), s\<lparr>writes := writes s @ [buf]\<rparr>) \<and>
           print_voucher now (Some (JObj [(js ''station'', JObj []), (js ''voucher'', JObj [])]))
               Flushed s =
             (json_ok (VoucherBody (length buf) False), s\<lparr>writes := writes s @ [buf]\<rparr>)"
proof -
  have n: "(None :: json option) = None \<or> None = Some (JObj [])" by simp
  from default_receipt [OF n, of now] obtain hex buf where
    d: "fullHex now None = Some hex" "voucher_buffer now None = Some buf" "buf \<noteq> []"
       "sublist (ascii_bytes ''My Station'') buf" "sublist (ascii_bytes ''VC123456'') buf"
       "sublist (js ''4D792053746174696F6E'') hex" "sublist (js ''5643313233343536'') hex"
    by blast
  have 1: "print_voucher now None Flushed s =
             (json_ok (VoucherBody (length buf) True), s\<lparr>writes := writes s @ [buf]\<rparr>)"
    using print_voucher_flushed [OF assms d(2)] by (simp add: usedDefaults_def)
  have 2: "print_voucher now (Some (JObj [])) Flushed s =
             (json_ok (VoucherBody (length buf) True), s\<lparr>writes := writes s @ [buf]\<rparr>)"
    using print_voucher_flushed [OF assms, of now "Some (JObj [])" buf] d(2)
    by (simp add: usedDefaults_def empty_object_same)
  have 3: "print_voucher now (Some (JObj [(js ''station'', JObj []), (js ''voucher'', JObj [])]))
               Flushed s =
             (json_ok (VoucherBody (length buf) False), s\<lparr>writes := writes s @ [buf]\<rparr>)"
    using print_voucher_flushed [OF assms,
        of now "Some (JObj [(js ''station'', JObj []), (js ''voucher'', JObj [])])" buf] d(2)
    by (simp add: usedDefaults_def empty_records_same)
  from d 1 2 3 show ?thesis by blast
qed

theorem print_voucher_defaults_witness:
  "port_isOpen example_open \<and>
   (\<exists>buf :: byte list. fst (print_voucher example_clock None Flushed example_open) =
             json_ok (VoucherBody (length buf) True) \<and>
          fst (print_voucher example_clock
                 (Some (JObj [(js ''station'', JObj []), (js ''voucher'', JObj [])]))
                 Flushed example_open) =
             json_ok (VoucherBody (length buf) False) \<and>
          buf \<noteq> [] \<and>
          sublist [77, 121, 32, 83, 116, 97, 116, 105, 111, 110] buf \<and>
          sublist [86, 67, 49, 50, 51, 52, 53, 54] buf)"
proof -
  have n: "ascii_bytes ''My Station'' = [77, 121, 32, 83, 116, 97, 116, 105, 111, 110]"
          "ascii_bytes ''VC123456'' = [86, 67, 49, 50, 51, 52, 53, 54]"
    by (simp_all add: ascii_bytes_def)
  from print_voucher_defaults [OF example_open_isOpen, of example_clock]
  obtain hex buf where
    "buf \<noteq> []" "sublist (ascii_bytes ''My Station'') buf" "sublist (ascii_bytes ''VC123456'') buf"
    "print_voucher example_clock None Flushed example_open =
       (json_ok (VoucherBody (length buf) True), example_open\<lparr>writes := writes example_open @ [buf]\<rparr>)"
    "print_voucher example_clock (Some (JObj [(js ''station'', JObj []), (js ''voucher'', JObj [])]))
       Flushed example_open =
       (json_ok (VoucherBody (length buf) False), example_open\<lparr>writes := writes example_open @ [buf]\<rparr>)"
    by blast
  then have "fst (print_voucher example_clock None Flushed example_open) =
             json_ok (VoucherBody (length buf) True) \<and>
          fst (print_voucher example_clock
                 (Some (JObj [(js ''station'', JObj []), (js ''voucher'', JObj [])]))
                 Flushed example_open) =
             json_ok (VoucherBody (length buf) False) \<and>
          buf \<noteq> [] \<and>
          sublist [77, 121, 32, 83, 116, 97, 116, 105, 111, 110] buf \<and>
          sublist [86, 67, 49, 50, 51, 52, 53, 54] buf"
    by (simp add: n)
  then show ?thesis using example_open_isOpen by blast
qed

text \<open>
  The claim as worded, at the input it names: with an empty station record and an empty
  voucher record the response is a success whose \<open>usedDefaults\<close> is false.
\<close>

theorem empty_records_usedDefaults_false:
  "port_isOpen example_open \<and>
   status (fst (print_voucher example_clock
      (Some (JObj [(js ''station'', JObj []), (js ''voucher'', JObj [])])) Flushed example_open)) = 200 \<and>
   payload (fst (print_voucher example_clock
      (Some (JObj [(js ''station'', JObj []), (js ''voucher'', JObj [])])) Flushed example_open)) =
     VoucherBody (length (the (voucher_buffer example_clock None))) False"
proof -
  have n: "(None :: json option) = None \<or> None = Some (JObj [])" by simp
  from default_receipt [OF n, of example_clock] obtain buf where
    b: "voucher_buffer example_clock None = Some buf" by blast
  then have "voucher_buffer example_clock
      (Some (JObj [(js ''station'', JObj []), (js ''voucher'', JObj [])])) = Some buf"
    by (simp add: empty_records_same)
  from print_voucher_flushed [OF example_open_isOpen this] b example_open_isOpen
  show ?thesis by (simp add: json_ok_def usedDefaults_def)
qed

text \<open>
  C10. In a successful response of \<open>/print-voucher\<close>, \<open>usedDefaults\<close> is true exactly
  when the request body is absent or has no keys, and on an open link with a flushed
  write every body whose fields convert to text has such a response. Any body with a
  key gives false: the body \<open>{ station: {} }\<close> prints the very receipt of the defaults,
  and a body that gives only the nozzle number still has the default voucher number,
  both with \<open>usedDefaults = false\<close>.
\<close>

theorem usedDefaults_iff_no_keys:
  "(\<forall>r s'. print_voucher now reqbody wo s = (r, s') \<and> status r = 200 \<longrightarrow>
      (\<exists>n. payload r =
             VoucherBody n (case reqbody of None \<Rightarrow> True | Some v \<Rightarrow> keys_length v = 0))) \<and>
   (\<forall>buf. port_isOpen s \<and> voucher_buffer now reqbody = Some buf \<longrightarrow>
      fst (print_voucher now reqbody Flushed s) =
        json_ok (VoucherBody (length buf)
                   (case reqbody of None \<Rightarrow> True | Some v \<Rightarrow> keys_length v = 0))) \<and>
   (\<forall>kvs. reqbody = Some (JObj kvs) \<and> kvs \<noteq> [] \<longrightarrow> \<not> usedDefaults reqbody) \<and>
   voucher_buffer now (Some (JObj [(js ''station'', JObj [])])) = voucher_buffer now None \<and>
   \<not> usedDefaults (Some (JObj [(js ''station'', JObj [])])) \<and>
   voucher_of now (Some (JObj [(js ''voucher'', JObj [(js ''nozzleNo'', v)])])) (js ''vocono'') =
     Some (JStr (js ''VC123456'')) \<and>
   \<not> usedDefaults (Some (JObj [(js ''voucher'', JObj [(js ''nozzleNo'', v)])]))"
proof (intro conjI impI allI)
  fix r s'
  assume a: "print_voucher now reqbody wo s = (r, s') \<and> status r = 200"
  show "\<exists>n. payload r =
             VoucherBody n (case reqbody of None \<Rightarrow> True | Some v \<Rightarrow> keys_length v = 0)"
  proof (cases "port_isOpen s")
    case False
    with a show ?thesis by (auto simp: print_voucher_def NotOpen_def json_error_def)
  next
    case True
    show ?thesis
    proof (cases "voucher_buffer now reqbody")
      case None
      with True a show ?thesis
        by (auto simp: print_voucher_def conversion_error_def json_error_def)
    next
      case (Some buf)
      with True a show ?thesis
        by (cases wo)
          (auto simp: print_voucher_def port_write_def json_error_def json_ok_def
            usedDefaults_keys)
    qed
  qed
next
  fix buf
  assume "port_isOpen s \<and> voucher_buffer now reqbody = Some buf"
  then show "fst (print_voucher now reqbody Flushed s) =
        json_ok (VoucherBody (length buf)
                   (case reqbody of None \<Rightarrow> True | Some v \<Rightarrow> keys_length v = 0))"
    by (simp add: print_voucher_flushed usedDefaults_keys)
next
  fix kvs assume "reqbody = Some (JObj kvs) \<and> kvs \<noteq> []"
  then show "\<not> usedDefaults reqbody" by (simp add: usedDefaults_def)
next
  show "voucher_buffer now (Some (JObj [(js ''station'', JObj [])])) = voucher_buffer now None"
    by (rule empty_station_same)
next
  show "\<not> usedDefaults (Some (JObj [(js ''station'', JObj [])]))" by (simp add: usedDefaults_def)
next
  show "voucher_of now (Some (JObj [(js ''voucher'', JObj [(js ''nozzleNo'', v)])])) (js ''vocono'') =
     Some (JStr (js ''VC123456''))"
    by (simp add: voucher_of_def or_empty_object_def defaultVoucher_def js_def Let_def)
next
  show "\<not> usedDefaults (Some (JObj [(js ''voucher'', JObj [(js ''nozzleNo'', v)])]))"
    by (simp add: usedDefaults_def)
qed

theorem usedDefaults_iff_no_keys_witness:
  "port_isOpen example_open \<and>
   (\<exists>buf. voucher_buffer example_clock None = Some buf \<and>
      print_voucher example_clock (Some (JObj [])) Flushed example_open =
        (json_ok (VoucherBody (length buf) True), example_open\<lparr>writes := [buf]\<rparr>) \<and>
      status (json_ok (VoucherBody (length buf) True)) = 200 \<and>
      payload (json_ok (VoucherBody (length buf) True)) = VoucherBody (length buf) True \<and>
      fst (print_voucher example_clock (Some (JObj [(js ''station'', JObj [])])) Flushed example_open) =
        json_ok (VoucherBody (length buf) False))"
proof -
  have n: "(None :: json option) = None \<or> None = Some (JObj [])" by simp
  from default_receipt [OF n, of example_clock] obtain buf where
    b: "voucher_buffer example_clock None = Some buf" by blast
  have w: "writes example_open = []" by (simp add: example_open_eq)
  have p: "print_voucher example_clock (Some (JObj [])) Flushed example_open =
        (json_ok (VoucherBody (length buf) True), example_open\<lparr>writes := [buf]\<rparr>)"
    using print_voucher_flushed [OF example_open_isOpen, of example_clock "Some (JObj [])" buf] b
    by (simp add: empty_object_same usedDefaults_def w)
  have s: "status (json_ok (VoucherBody (length buf) True)) = 200" by (simp add: json_ok_def)
  note t = usedDefaults_iff_no_keys [of example_clock "Some (JObj [])" Flushed example_open]
  from t p s have 1: "\<exists>n. payload (json_ok (VoucherBody (length buf) True)) =
      VoucherBody n (case Some (JObj []) of None \<Rightarrow> True | Some v \<Rightarrow> keys_length v = 0)"
    by blast
  then have 2: "payload (json_ok (VoucherBody (length buf) True)) = VoucherBody (length buf) True"
    by (simp add: json_ok_def)
  note u = usedDefaults_iff_no_keys [of example_clock "Some (JObj [(js ''station'', JObj [])])"
      Flushed example_open]
  have "voucher_buffer example_clock (Some (JObj [(js ''station'', JObj [])])) = Some buf"
    using b by (simp add: empty_station_same)
  with u example_open_isOpen
  have "fst (print_voucher example_clock (Some (JObj [(js ''station'', JObj [])])) Flushed example_open) =
        json_ok (VoucherBody (length buf)
          (case Some (JObj [(js ''station'', JObj [])]) of None \<Rightarrow> True | Some v \<Rightarrow> keys_length v = 0))"
    by blast
  then have 3: "fst (print_voucher example_clock (Some (JObj [(js ''station'', JObj [])])) Flushed example_open) =
        json_ok (VoucherBody (length buf) False)" by simp
  from b p s 2 3 example_open_isOpen show ?thesis by blast
qed











end
